theory Spec2Isabelle
  imports Complex_Main "HOL-Library.Char_ord" "HOL-Library.List_Lexorder"
begin

section \<open>JavaScript values\<close>

text \<open>
  A JavaScript number is NaN, an infinity or a finite value; the finite values are taken
  as exact rationals (every finite double is one), so the rounding of double arithmetic
  is outside this development.
\<close>

datatype jsnum = NaN | NegInf | Fin rat | PosInf

text \<open>The operator \<open><\<close> on two numbers: false as soon as one side is NaN.\<close>

fun js_lt :: "jsnum \<Rightarrow> jsnum \<Rightarrow> bool" where
  "js_lt NaN _ = False"
| "js_lt _ NaN = False"
| "js_lt PosInf _ = False"
| "js_lt _ NegInf = False"
| "js_lt NegInf _ = True"
| "js_lt _ PosInf = True"
| "js_lt (Fin a) (Fin b) = (a < b)"

text \<open>\<open>a >= b\<close> on two numbers: again false when NaN is involved.\<close>

fun js_ge :: "jsnum \<Rightarrow> jsnum \<Rightarrow> bool" where
  "js_ge NaN _ = False"
| "js_ge _ NaN = False"
| "js_ge a b = (\<not> js_lt a b)"

text \<open>
  The values a JSON request body can hold for a scalar field (arrays and objects are not
  covered); \<open>JUndefined\<close> is a field that is absent from the body.
\<close>

datatype jsval = JUndefined | JNull | JBool bool | JNum jsnum | JStr string

section \<open>Tables\<close>

record movie =
  movie_id :: int
  title :: string
  overview :: "string option"
  release_date :: "string option"
  runtime_minutes :: "int option"

record genre =
  genre_id :: int
  name :: string

record movie_genre =
  mg_movie_id :: int
  mg_genre_id :: int

record rating_row =
  rating_id :: int
  r_user_id :: int
  r_movie_id :: int
  rating :: rat
  r_timestamp :: nat

record review =
  review_id :: int
  rv_user_id :: int
  rv_movie_id :: int
  rv_title :: "string option"
  content :: string
  is_spoiler :: "bool option"
  rv_created_at :: nat
  rv_updated_at :: nat

record user =
  user_id :: int
  username :: string
  email :: string
  password_hash :: string
  first_name :: "string option"
  last_name :: "string option"
  bio :: "string option"
  profile_image_url :: "string option"
  is_active :: "bool option"
  email_verified :: "bool option"

record activity =
  a_user_id :: int
  a_movie_id :: int
  activity_type :: string

text \<open>
  The storage layer: one list of rows per table, in the table's own row order, and the
  auto-increment counters of the two tables the modelled operations insert into.
\<close>

record db =
  movies :: "movie list"
  genres :: "genre list"
  movie_genres :: "movie_genre list"
  ratings :: "rating_row list"
  reviews :: "review list"
  users :: "user list"
  user_activity :: "activity list"
  next_rating_id :: int
  next_review_id :: int

section \<open>Rating distribution (statsController.getRatingDistribution)\<close>







section \<open>The platform\<close>

text \<open>
  What the operations take from outside the repository: the string conversions of the
  JavaScript runtime, the comparison and pattern matching of the storage layer under the
  collation of its columns, the token library, and what the object-relational mapper and
  the storage layer make of a value bound to the \<open>rating\<close> column. They are parameters of
  the operations; every theorem below holds for each choice of them.
\<close>

record platform =
  parseInt :: "string \<Rightarrow> int option"
  parseFloat :: "string \<Rightarrow> jsnum"
  StringToNumber :: "string \<Rightarrow> jsnum"
  toFixed1 :: "rat \<Rightarrow> string"
  sql_like :: "string \<Rightarrow> string \<Rightarrow> bool"
  sql_date_between :: "string \<Rightarrow> string \<Rightarrow> string \<Rightarrow> bool"
  collate_le :: "string \<Rightarrow> string \<Rightarrow> bool"
  jwt_verify :: "string \<Rightarrow> int option"
  rating_on_create :: "jsval \<Rightarrow> rat option"
  rating_on_update :: "rat \<Rightarrow> jsval \<Rightarrow> rat option"
  limit_max :: int

text \<open>
  \<open>parseInt\<close> yields \<open>None\<close> for NaN. \<open>sql_like P pattern value\<close> is \<open>value LIKE pattern\<close>,
  \<open>sql_date_between P v lo hi\<close> is \<open>v BETWEEN lo AND hi\<close> on a date column, and
  \<open>collate_le P a b\<close> is the order of \<open>ORDER BY\<close> on a text column. \<open>jwt_verify P token\<close> is
  the \<open>id\<close> of the decoded payload, \<open>None\<close> when verification throws.
  \<open>rating_on_create P v\<close> is the value stored by \<open>Rating.create\<close> for a body value \<open>v\<close>,
  and \<open>rating_on_update P old v\<close> the value the row holds after
  \<open>existingRating.update({ rating: v })\<close>; both are \<open>None\<close> when the model validation or
  the statement fails. \<open>limit_max P\<close> is the largest number the storage layer accepts after
  \<open>LIMIT\<close> and \<open>OFFSET\<close>, the end of its integer range; a statement with a larger one,
  or with a negative one, is refused.
\<close>

section \<open>Responses\<close>

record 'a response =
  status :: nat
  success :: bool
  message :: "string option"
  data :: "'a option"

definition fail_with :: "nat \<Rightarrow> string \<Rightarrow> 'a response" where
  "fail_with code msg = \<lparr>status = code, success = False, message = Some msg, data = None\<rparr>"

definition server_error :: "'a response" where
  "server_error = fail_with 500 ''Server error''"

section \<open>Coercions of the language\<close>

fun ToNumber :: "platform \<Rightarrow> jsval \<Rightarrow> jsnum" where
  "ToNumber P JUndefined = NaN"
| "ToNumber P JNull = Fin 0"
| "ToNumber P (JBool b) = Fin (if b then 1 else 0)"
| "ToNumber P (JNum n) = n"
| "ToNumber P (JStr s) = StringToNumber P s"

text \<open>
  A query-string parameter is a string or absent; it is truthy when present and non-empty.
  \<open>truthy_text\<close> is the string of a truthy parameter, for \<open>if (x)\<close> and \<open>x || dflt\<close>, and
  \<open>None\<close> for a falsy one.
\<close>

fun truthy_text :: "string option \<Rightarrow> string option" where
  "truthy_text None = None"
| "truthy_text (Some s) = (if s = [] then None else Some s)"

text \<open>\<open>parseInt(x) || dflt\<close>: the default replaces NaN and 0.\<close>

definition parseInt_or :: "platform \<Rightarrow> string option \<Rightarrow> int \<Rightarrow> int" where
  "parseInt_or P x dflt =
     (case x of None \<Rightarrow> dflt
      | Some s \<Rightarrow> (case parseInt P s of None \<Rightarrow> dflt | Some n \<Rightarrow> if n = 0 then dflt else n))"

text \<open>\<open>x || 0\<close> on a number.\<close>

fun or_zero :: "jsnum \<Rightarrow> jsnum" where
  "or_zero NaN = Fin 0"
| "or_zero (Fin x) = (if x = 0 then Fin 0 else Fin x)"
| "or_zero n = n"

text \<open>A field of a request body that holds text or a flag: absent, \<open>null\<close>, or a value.\<close>

datatype 'a field = Absent | Null | Given 'a

text \<open>
  \<open>x || old\<close> for a text field whose column may be \<open>null\<close>, the same for a column that
  holds a string, and \<open>x || false\<close> for a flag.
\<close>

fun or_text :: "string field \<Rightarrow> string option \<Rightarrow> string option" where
  "or_text (Given s) old = (if s = [] then old else Some s)"
| "or_text _ old = old"

fun or_content :: "string field \<Rightarrow> string \<Rightarrow> string" where
  "or_content (Given s) old = (if s = [] then old else s)"
| "or_content _ old = old"

fun or_false :: "bool field \<Rightarrow> bool" where
  "or_false (Given b) = b"
| "or_false _ = False"

text \<open>\<open>x !== undefined ? x : old\<close> for a flag.\<close>

fun defined_or :: "bool field \<Rightarrow> bool option \<Rightarrow> bool option" where
  "defined_or Absent old = old"
| "defined_or Null old = None"
| "defined_or (Given b) old = Some b"

section \<open>Model validation (models/Rating.js excepted, see the platform)\<close>

text \<open>
  \<open>len: [lo, hi]\<close> and \<open>notEmpty\<close> of the model definitions. The mapper skips the
  validators of a column whose value is \<open>null\<close>. \<open>notEmpty\<close> rejects a string of white
  space only; the white space of the ASCII range is covered.
\<close>

definition len_ok :: "nat \<Rightarrow> nat \<Rightarrow> string option \<Rightarrow> bool" where
  "len_ok lo hi v = (case v of None \<Rightarrow> True | Some s \<Rightarrow> lo \<le> length s \<and> length s \<le> hi)"

definition is_space :: "char \<Rightarrow> bool" where
  "is_space c = (of_char c \<in> {9, 10, 11, 12, 13, 32 :: nat})"

definition notEmpty :: "string \<Rightarrow> bool" where
  "notEmpty s = (\<not> list_all is_space s)"

text \<open>
  Review: \<open>title\<close> has \<open>len: [0, 255]\<close>; \<open>content\<close> is \<open>notEmpty\<close> with \<open>len: [1, 5000]\<close>
  (and \<open>allowNull: false\<close>: a missing content fails before the validators run).
\<close>

definition Review_valid :: "string option \<Rightarrow> string \<Rightarrow> bool" where
  "Review_valid t c = (len_ok 0 255 t \<and> notEmpty c \<and> len_ok 1 5000 (Some c))"

text \<open>User: \<open>first_name\<close> and \<open>last_name\<close> have \<open>len: [1, 50]\<close>, \<open>bio\<close> has \<open>len: [0, 1000]\<close>.\<close>

definition User_profile_valid :: "string option \<Rightarrow> string option \<Rightarrow> string option \<Rightarrow> bool" where
  "User_profile_valid fname lname b = (len_ok 1 50 fname \<and> len_ok 1 50 lname \<and> len_ok 0 1000 b)"

section \<open>Lookups\<close>

definition Movie_findByPk :: "db \<Rightarrow> int \<Rightarrow> movie option" where
  "Movie_findByPk d mid = find (\<lambda>m. movie_id m = mid) (movies d)"

definition Rating_findOne :: "db \<Rightarrow> int \<Rightarrow> int \<Rightarrow> rating_row option" where
  "Rating_findOne d uid mid = find (\<lambda>r. r_user_id r = uid \<and> r_movie_id r = mid) (ratings d)"

definition Review_findOne :: "db \<Rightarrow> int \<Rightarrow> int \<Rightarrow> review option" where
  "Review_findOne d uid mid = find (\<lambda>r. rv_user_id r = uid \<and> rv_movie_id r = mid) (reviews d)"

definition Review_findByPk :: "db \<Rightarrow> int \<Rightarrow> review option" where
  "Review_findByPk d rid = find (\<lambda>r. review_id r = rid) (reviews d)"

definition User_findByPk :: "db \<Rightarrow> int \<Rightarrow> user option" where
  "User_findByPk d uid = find (\<lambda>u. user_id u = uid) (users d)"

section \<open>rateMovie (controllers/movieController.js)\<close>

text \<open>
  The operations that write take the state and return the response together with the new
  state; \<open>now\<close> is the clock read by the column defaults. The authenticated user's
  \<open>user_id\<close> and the \<open>id\<close> of the route are integers. Every exception inside the \<open>try\<close>
  block ends in the \<open>catch\<close> branch, which answers 500 and leaves what was written before
  it in place.
\<close>

text \<open>\<open>existingRating.update\<close> writes the row of the instance's primary key.\<close>

definition Rating_update :: "db \<Rightarrow> rating_row \<Rightarrow> rat \<Rightarrow> db" where
  "Rating_update d existingRating v =
     d\<lparr>ratings := map (\<lambda>r. if rating_id r = rating_id existingRating then r\<lparr>rating := v\<rparr> else r)
                      (ratings d)\<rparr>"

definition Rating_create :: "nat \<Rightarrow> db \<Rightarrow> int \<Rightarrow> int \<Rightarrow> rat \<Rightarrow> rating_row \<times> db" where
  "Rating_create now d uid mid v =
     (let row = \<lparr>rating_id = next_rating_id d, r_user_id = uid, r_movie_id = mid, rating = v,
                 r_timestamp = now\<rparr>
      in (row, d\<lparr>ratings := ratings d @ [row], next_rating_id := next_rating_id d + 1\<rparr>))"

definition log_activity :: "db \<Rightarrow> int \<Rightarrow> int \<Rightarrow> db" where
  "log_activity d uid mid =
     d\<lparr>user_activity := user_activity d @
          [\<lparr>a_user_id = uid, a_movie_id = mid, activity_type = ''rate''\<rparr>]\<rparr>"

definition rating_submitted :: "rating_row \<Rightarrow> rating_row response" where
  "rating_submitted userRating =
     \<lparr>status = 200, success = True, message = Some ''Rating submitted successfully'',
      data = Some userRating\<rparr>"

text \<open>The part of \<open>rateMovie\<close> after the movie was found: look the pair up, update or create, log.\<close>

definition rate_write :: "platform \<Rightarrow> nat \<Rightarrow> db \<Rightarrow> int \<Rightarrow> int \<Rightarrow> jsval \<Rightarrow> rating_row response \<times> db" where
  "rate_write P now d uid mid body_rating =
     (case Rating_findOne d uid mid of
        Some existingRating \<Rightarrow>
          (case rating_on_update P (rating existingRating) body_rating of
             None \<Rightarrow> (server_error, d)
           | Some v \<Rightarrow>
               (rating_submitted (existingRating\<lparr>rating := v\<rparr>),
                log_activity (Rating_update d existingRating v) uid mid))
      | None \<Rightarrow>
          (case rating_on_create P body_rating of
             None \<Rightarrow> (server_error, d)
           | Some v \<Rightarrow>
               (let (userRating, d1) = Rating_create now d uid mid v
                in (rating_submitted userRating, log_activity d1 uid mid))))"

definition rateMovie :: "platform \<Rightarrow> nat \<Rightarrow> db \<Rightarrow> int \<Rightarrow> int \<Rightarrow> jsval \<Rightarrow> rating_row response \<times> db" where
  "rateMovie P now d uid mid body_rating =
     (if js_lt (ToNumber P body_rating) (Fin 0) \<or> js_lt (Fin 10) (ToNumber P body_rating)
      then (fail_with 400 ''Rating must be between 0 and 10'', d)
      else (case Movie_findByPk d mid of
              None \<Rightarrow> (fail_with 404 ''Movie not found'', d)
            | Some movie \<Rightarrow> rate_write P now d uid mid body_rating))"

section \<open>createReview and updateReview (reviewController)\<close>

record review_body =
  b_movie_id :: "int option"
  b_title :: "string field"
  b_content :: "string field"
  b_is_spoiler :: "bool field"

text \<open>
  The value of a text field as the mapper binds it: absent and \<open>null\<close> are both no value.
  The answers of \<open>createReview\<close> and \<open>updateReview\<close> carry the review row as it is read
  back; the attributes of the user and of the movie that the read joins in for display are
  left out.
\<close>

fun bound_text :: "string field \<Rightarrow> string option" where
  "bound_text (Given s) = Some s"
| "bound_text _ = None"

definition createReview :: "platform \<Rightarrow> nat \<Rightarrow> db \<Rightarrow> int \<Rightarrow> review_body \<Rightarrow> review response \<times> db" where
  "createReview P now d uid body =
     (case b_movie_id body of
        None \<Rightarrow> (fail_with 404 ''Movie not found'', d)
      | Some mid \<Rightarrow>
     (case Movie_findByPk d mid of
        None \<Rightarrow> (fail_with 404 ''Movie not found'', d)
      | Some movie \<Rightarrow>
          (case Review_findOne d uid mid of
             Some existingReview \<Rightarrow> (fail_with 400 ''You have already reviewed this movie'', d)
           | None \<Rightarrow>
               (case bound_text (b_content body) of
                  None \<Rightarrow> (server_error, d)
                | Some c \<Rightarrow>
                    if \<not> Review_valid (bound_text (b_title body)) c then (server_error, d)
                    else
                      (let row = \<lparr>review_id = next_review_id d, rv_user_id = uid,
                                  rv_movie_id = mid,
                                  rv_title = bound_text (b_title body),
                                  content = c,
                                  is_spoiler = Some (or_false (b_is_spoiler body)),
                                  rv_created_at = now, rv_updated_at = now\<rparr>;
                           d1 = d\<lparr>reviews := reviews d @ [row],
                                  next_review_id := next_review_id d + 1\<rparr>
                       in (\<lparr>status = 201, success = True,
                            message = Some ''Review created successfully'',
                            data = Review_findByPk d1 (review_id row)\<rparr>, d1))))))"

record review_update =
  u_title :: "string field"
  u_content :: "string field"
  u_is_spoiler :: "bool field"

definition updateReview :: "db \<Rightarrow> int \<Rightarrow> int \<Rightarrow> review_update \<Rightarrow> review response \<times> db" where
  "updateReview d uid rid body =
     (case Review_findByPk d rid of
        None \<Rightarrow> (fail_with 404 ''Review not found'', d)
      | Some review \<Rightarrow>
          if rv_user_id review \<noteq> uid
          then (fail_with 403 ''Not authorized to update this review'', d)
          else
            (let t = or_text (u_title body) (rv_title review);
                 c = or_content (u_content body) (content review);
                 s = defined_or (u_is_spoiler body) (is_spoiler review)
             in if \<not> Review_valid t c then (server_error, d)
                else
                  (let d1 = d\<lparr>reviews :=
                              map (\<lambda>r. if review_id r = review_id review
                                        then r\<lparr>rv_title := t, content := c, is_spoiler := s\<rparr>
                                        else r) (reviews d)\<rparr>
                   in (\<lparr>status = 200, success = True, message = Some ''Review updated successfully'',
                        data = Review_findByPk d1 rid\<rparr>, d1))))"

section \<open>updateProfile and deleteAccount (userController)\<close>

record profile_update =
  u_first_name :: "string field"
  u_last_name :: "string field"
  u_bio :: "string field"

text \<open>The \<open>user\<close> object of the response of \<open>updateProfile\<close>.\<close>

record profile =
  p_id :: int
  p_username :: string
  p_email :: string
  p_first_name :: "string option"
  p_last_name :: "string option"
  p_bio :: "string option"
  p_profile_image_url :: "string option"

definition profile_of :: "user \<Rightarrow> profile" where
  "profile_of u =
     \<lparr>p_id = user_id u, p_username = username u, p_email = email u,
      p_first_name = first_name u, p_last_name = last_name u, p_bio = bio u,
      p_profile_image_url = profile_image_url u\<rparr>"

definition updateProfile :: "db \<Rightarrow> int \<Rightarrow> profile_update \<Rightarrow> profile response \<times> db" where
  "updateProfile d uid body =
     (case User_findByPk d uid of
        None \<Rightarrow> (fail_with 404 ''User not found'', d)
      | Some u \<Rightarrow>
          (let f = or_text (u_first_name body) (first_name u);
               l = or_text (u_last_name body) (last_name u);
               b = or_text (u_bio body) (bio u)
           in if \<not> User_profile_valid f l b
              then (fail_with 500 ''Server error while updating profile'', d)
              else
                (let u1 = u\<lparr>first_name := f, last_name := l, bio := b\<rparr>;
                     d1 = d\<lparr>users :=
                              map (\<lambda>r. if user_id r = user_id u
                                        then r\<lparr>first_name := f, last_name := l, bio := b\<rparr>
                                        else r) (users d)\<rparr>
                 in (\<lparr>status = 200, success = True, message = Some ''Profile updated successfully'',
                      data = Some (profile_of u1)\<rparr>, d1))))"

definition deleteAccount :: "db \<Rightarrow> int \<Rightarrow> unit response \<times> db" where
  "deleteAccount d uid =
     (case User_findByPk d uid of
        None \<Rightarrow> (fail_with 404 ''User not found'', d)
      | Some u \<Rightarrow>
          (\<lparr>status = 200, success = True, message = Some ''Account deleted successfully'',
            data = None\<rparr>,
           d\<lparr>users := map (\<lambda>r. if user_id r = user_id u then r\<lparr>is_active := Some False\<rparr> else r)
                          (users d)\<rparr>))"

section \<open>Sequences of requests\<close>

text \<open>
  The requests that write, one for each of the operations above, and the state after a
  sequence of them, each handled on the state its predecessor left.
\<close>

datatype request =
    RateMovie nat int int jsval
  | CreateReview nat int review_body
  | UpdateReview int int review_update
  | UpdateProfile int profile_update
  | DeleteAccount int

fun handle :: "platform \<Rightarrow> db \<Rightarrow> request \<Rightarrow> db" where
  "handle P d (RateMovie now uid mid body_rating) = snd (rateMovie P now d uid mid body_rating)"
| "handle P d (CreateReview now uid body) = snd (createReview P now d uid body)"
| "handle P d (UpdateReview uid rid body) = snd (updateReview d uid rid body)"
| "handle P d (UpdateProfile uid body) = snd (updateProfile d uid body)"
| "handle P d (DeleteAccount uid) = snd (deleteAccount d uid)"

definition run :: "platform \<Rightarrow> db \<Rightarrow> request list \<Rightarrow> db" where
  "run P d reqs = foldl (handle P) d reqs"

section \<open>auth (middleware/auth.js)\<close>

text \<open>\<open>s.split(' ')\<close>: the pieces between single spaces, empty pieces kept.\<close>

fun split_space :: "string \<Rightarrow> string list" where
  "split_space [] = [[]]"
| "split_space (c # cs) =
     (if c = CHR '' '' then [] # split_space cs
      else (case split_space cs of [] \<Rightarrow> [[c]] | w # ws \<Rightarrow> (c # w) # ws))"

definition bearer_token :: "string option \<Rightarrow> string option" where
  "bearer_token authorization =
     (case authorization of
        None \<Rightarrow> None
      | Some h \<Rightarrow>
          if h \<noteq> [] \<and> take 6 h = ''Bearer''
          then (case split_space h of _ # t # _ \<Rightarrow> Some t | _ \<Rightarrow> None)
          else None)"

text \<open>
  The middleware either answers itself or calls \<open>next()\<close> with the user it attached to the
  request (the row as it is stored; the source leaves \<open>password_hash\<close> out of the attached
  object). The header is a string or absent.
\<close>

datatype auth_result = Rejected "unit response" | Next user

definition auth :: "platform \<Rightarrow> db \<Rightarrow> string option \<Rightarrow> auth_result" where
  "auth P d authorization =
     (case bearer_token authorization of
        None \<Rightarrow> Rejected (fail_with 401 ''Not authorized, no token'')
      | Some token \<Rightarrow>
          if token = [] then Rejected (fail_with 401 ''Not authorized, no token'')
          else (case jwt_verify P token of
                  None \<Rightarrow> Rejected (fail_with 401 ''Not authorized, token failed'')
                | Some decoded_id \<Rightarrow>
                    (case User_findByPk d decoded_id of
                       None \<Rightarrow> Rejected (fail_with 401 ''Not authorized, user not found'')
                     | Some u \<Rightarrow>
                         if is_active u \<noteq> Some True
                         then Rejected (fail_with 401 ''Account is deactivated'')
                         else Next u)))"


section \<open>Aggregates over the ratings table\<close>

text \<open>
  \<open>AVG\<close> runs over the rows of the group, keeping their sum and their number, and is
  \<open>NULL\<close> on an empty group; \<open>COALESCE(x, 0)\<close> replaces the \<open>NULL\<close>. The average is the
  exact quotient: the scale at which the storage layer rounds a decimal quotient is not
  modelled.
\<close>

definition sql_avg :: "rat list \<Rightarrow> rat option" where
  "sql_avg xs =
     (let (s, n) = foldl (\<lambda>(s, n) x. (s + x, n + 1)) (0, 0 :: nat) xs
      in if n = 0 then None else Some (s / of_nat n))"

definition coalesce :: "'a option \<Rightarrow> 'a \<Rightarrow> 'a" where
  "coalesce x dflt = (case x of None \<Rightarrow> dflt | Some v \<Rightarrow> v)"

definition movie_ratings :: "db \<Rightarrow> int \<Rightarrow> rating_row list" where
  "movie_ratings d mid = filter (\<lambda>r. r_movie_id r = mid) (ratings d)"

text \<open>The two correlated subqueries: \<open>WHERE ratings.movie_id = Movie.movie_id\<close>.\<close>

definition avgRating_subquery :: "db \<Rightarrow> int \<Rightarrow> rat" where
  "avgRating_subquery d mid = coalesce (sql_avg (map rating (movie_ratings d mid))) 0"

definition ratingCount_subquery :: "db \<Rightarrow> int \<Rightarrow> nat" where
  "ratingCount_subquery d mid = length (movie_ratings d mid)"

text \<open>The arithmetic mean as the specification words it, 0 for no values.\<close>

definition mean_or_zero :: "rat list \<Rightarrow> rat" where
  "mean_or_zero xs = (if xs = [] then 0 else sum_list xs / of_nat (length xs))"

section \<open>Ordering\<close>

text \<open>
  \<open>ORDER BY\<close> as a stable insertion sort under a comparison: among rows that compare
  equal the storage layer is free to choose, and the table order is the choice made here.
\<close>

fun insert_by :: "('a \<Rightarrow> 'a \<Rightarrow> bool) \<Rightarrow> 'a \<Rightarrow> 'a list \<Rightarrow> 'a list" where
  "insert_by le x [] = [x]"
| "insert_by le x (y # ys) = (if le x y then x # y # ys else y # insert_by le x ys)"

definition sort_by :: "('a \<Rightarrow> 'a \<Rightarrow> bool) \<Rightarrow> 'a list \<Rightarrow> 'a list" where
  "sort_by le xs = foldr (insert_by le) xs []"

datatype order_col = ByTitle | ByReleaseDate | ByAvgRating

datatype direction = ASC | DESC

definition order_by :: "('a \<Rightarrow> 'a \<Rightarrow> bool) \<Rightarrow> direction \<Rightarrow> 'a list \<Rightarrow> 'a list" where
  "order_by le dir xs = (case dir of ASC \<Rightarrow> sort_by le xs | DESC \<Rightarrow> sort_by (\<lambda>a b. le b a) xs)"

section \<open>getMovies (controllers/movieController.js)\<close>

record movies_query =
  q_page :: "string option"
  q_limit :: "string option"
  q_sort :: "string option"
  q_genre :: "string option"
  q_year :: "string option"
  q_search :: "string option"
  q_minRating :: "string option"

text \<open>A movie instance of the result: the row, the two computed attributes, the genres joined in.\<close>

record movie_row =
  mr_movie :: movie
  avgRating :: rat
  ratingCount :: nat
  Genres :: "genre list"

record pagination =
  pg_page :: int
  pg_limit :: int
  total :: int
  pages :: int

record movies_page =
  pm_movies :: "movie_row list"
  pm_pagination :: pagination

text \<open>The \<open>switch\<close> over \<open>sort\<close>.\<close>

definition orderClause :: "string \<Rightarrow> order_col \<times> direction" where
  "orderClause sort_v =
     (if sort_v = ''title-asc'' then (ByTitle, ASC)
      else if sort_v = ''title-desc'' then (ByTitle, DESC)
      else if sort_v = ''year-asc'' then (ByReleaseDate, ASC)
      else if sort_v = ''year-desc'' then (ByReleaseDate, DESC)
      else if sort_v = ''rating-asc'' then (ByAvgRating, ASC)
      else if sort_v = ''rating-desc'' then (ByAvgRating, DESC)
      else (ByTitle, ASC))"

text \<open>
  The comparison of two movies under an order column. A \<open>NULL\<close> release date sorts before
  every date; dates are \<open>YYYY-MM-DD\<close> strings.
\<close>

fun movie_le :: "platform \<Rightarrow> db \<Rightarrow> order_col \<Rightarrow> movie \<Rightarrow> movie \<Rightarrow> bool" where
  "movie_le P d ByTitle a b = collate_le P (title a) (title b)"
| "movie_le P d ByReleaseDate a b =
     (case release_date a of
        None \<Rightarrow> True
      | Some x \<Rightarrow> (case release_date b of None \<Rightarrow> False | Some y \<Rightarrow> x \<le> y))"
| "movie_le P d ByAvgRating a b =
     (avgRating_subquery d (movie_id a) \<le> avgRating_subquery d (movie_id b))"

text \<open>\<open>whereClause\<close>: the title pattern when \<open>search\<close> is given, the year range when \<open>year\<close> is.\<close>

definition whereClause :: "platform \<Rightarrow> movies_query \<Rightarrow> movie \<Rightarrow> bool" where
  "whereClause P q m =
     ((case truthy_text (q_search q) of
         None \<Rightarrow> True
       | Some search \<Rightarrow> sql_like P (''%'' @ search @ ''%'') (title m)) \<and>
      (case truthy_text (q_year q) of
         None \<Rightarrow> True
       | Some year \<Rightarrow>
           (case release_date m of
              None \<Rightarrow> False
            | Some dt \<Rightarrow> sql_date_between P dt (year @ ''-01-01'') (year @ ''-12-31''))))"

definition genres_of :: "db \<Rightarrow> movie \<Rightarrow> genre list" where
  "genres_of d m =
     concat (map (\<lambda>mg. filter (\<lambda>g. genre_id g = mg_genre_id mg) (genres d))
                 (filter (\<lambda>mg. mg_movie_id mg = movie_id m) (movie_genres d)))"

text \<open>
  The rows of the one query that \<open>subQuery: false\<close> asks for: each movie joined to its
  genres. Without a \<open>genre\<close> filter the join is outer and a movie without genres stays,
  with no genre; with the filter the include is required, the join is inner and only
  genres matching the pattern join.
\<close>

definition joined_rows :: "platform \<Rightarrow> db \<Rightarrow> movies_query \<Rightarrow> (movie \<times> genre option) list" where
  "joined_rows P d q =
     concat (map (\<lambda>m.
        case truthy_text (q_genre q) of
          Some genre_v \<Rightarrow>
            map (\<lambda>g. (m, Some g))
              (filter (\<lambda>g. sql_like P (''%'' @ genre_v @ ''%'') (name g)) (genres_of d m))
        | None \<Rightarrow> (case genres_of d m of [] \<Rightarrow> [(m, None)] | gs \<Rightarrow> map (\<lambda>g. (m, Some g)) gs))
       (filter (whereClause P q) (movies d)))"

text \<open>The mapper folds the joined rows of a page into one instance per primary key, first seen first.\<close>

definition first_by_pk :: "movie list \<Rightarrow> movie list" where
  "first_by_pk ms =
     foldl (\<lambda>acc m. if movie_id m \<in> set (map movie_id acc) then acc else acc @ [m]) [] ms"

definition instances :: "db \<Rightarrow> (movie \<times> genre option) list \<Rightarrow> movie_row list" where
  "instances d page_rows =
     map (\<lambda>m. \<lparr>mr_movie = m,
               avgRating = avgRating_subquery d (movie_id m),
               ratingCount = ratingCount_subquery d (movie_id m),
               Genres = concat (map (\<lambda>(m', g). case g of None \<Rightarrow> [] | Some g' \<Rightarrow>
                                  if movie_id m' = movie_id m then [g'] else []) page_rows)\<rparr>)
         (first_by_pk (map fst page_rows))"

text \<open>
  \<open>findAndCountAll\<close>: the rows are the joined rows in order, cut by \<open>OFFSET\<close> and \<open>LIMIT\<close>
  and folded into instances. The count is \<open>COUNT(Movie.movie_id)\<close> over the same join
  without order, limit and offset, and without \<open>DISTINCT\<close>: the number of joined rows, so a
  movie counts once for each genre joined to it.
\<close>

definition findAndCountAll ::
  "platform \<Rightarrow> db \<Rightarrow> movies_query \<Rightarrow> order_col \<times> direction \<Rightarrow> int \<Rightarrow> int \<Rightarrow> int \<times> movie_row list" where
  "findAndCountAll P d q ord limit offset =
     (let sorted_rows = order_by (\<lambda>a b. movie_le P d (fst ord) (fst a) (fst b)) (snd ord)
                          (joined_rows P d q);
          rows = instances d (take (nat limit) (drop (nat offset) sorted_rows));
          count = int (length (joined_rows P d q))
      in (count, rows))"

text \<open>
  \<open>getMovies\<close> only reads. A \<open>LIMIT\<close> or \<open>OFFSET\<close> that is negative or beyond \<open>limit_max\<close>
  is refused by the storage layer, and the exception ends in the \<open>catch\<close> branch.
\<close>

definition getMovies :: "platform \<Rightarrow> db \<Rightarrow> movies_query \<Rightarrow> movies_page response" where
  "getMovies P d q =
     (let page = parseInt_or P (q_page q) 1;
          limit = parseInt_or P (q_limit q) 8;
          offset = (page - 1) * limit;
          sort_v = (case truthy_text (q_sort q) of None \<Rightarrow> ''title-asc'' | Some s \<Rightarrow> s);
          minRating = truthy_text (q_minRating q)
      in if limit < 0 \<or> offset < 0 \<or> limit_max P < limit \<or> limit_max P < offset
         then server_error
         else
           (let (count, rows) = findAndCountAll P d q (orderClause sort_v) limit offset;
                filteredMovies =
                  (case minRating of
                     None \<Rightarrow> rows
                   | Some minRating_v \<Rightarrow>
                       filter (\<lambda>movie. js_ge (or_zero (Fin (avgRating movie)))
                                         (parseFloat P minRating_v)) rows);
                total_v = (case minRating of None \<Rightarrow> count | Some _ \<Rightarrow> int (length filteredMovies))
            in \<lparr>status = 200, success = True, message = None,
                data = Some \<lparr>pm_movies = filteredMovies,
                             pm_pagination =
                               \<lparr>pg_page = page, pg_limit = limit, total = total_v,
                                pages = \<lceil>(of_int total_v :: rat) / of_int limit\<rceil>\<rparr>\<rparr>\<rparr>))"

section \<open>getTopRatedMovies and getRecommendations\<close>

text \<open>A row of a raw query with its two aggregates, and the same row as the response shows it.\<close>

record rated_movie =
  rm_movie :: movie
  rm_avgRating :: string
  rm_ratingCount :: nat

text \<open>\<open>ORDER BY avgRating DESC, ratingCount DESC\<close> on triples of movie, average and count.\<close>

definition rated_before :: "movie \<times> rat \<times> nat \<Rightarrow> movie \<times> rat \<times> nat \<Rightarrow> bool" where
  "rated_before a b =
     (fst (snd a) > fst (snd b) \<or> (fst (snd a) = fst (snd b) \<and> snd (snd a) \<ge> snd (snd b)))"

text \<open>\<open>parseFloat(movie.avgRating).toFixed(1)\<close> on every row.\<close>

definition present_rated :: "platform \<Rightarrow> (movie \<times> rat \<times> nat) list \<Rightarrow> rated_movie list" where
  "present_rated P rows =
     map (\<lambda>(m, a, c). \<lparr>rm_movie = m, rm_avgRating = toFixed1 P a, rm_ratingCount = c\<rparr>) rows"

text \<open>
  The query of \<open>getTopRatedMovies\<close>: movies left-joined to their ratings, one group per movie
  (\<open>movie_id\<close> is the primary key), the groups with at least one rating kept.
\<close>

definition top_rated_query :: "db \<Rightarrow> int \<Rightarrow> (movie \<times> rat \<times> nat) list" where
  "top_rated_query d limit =
     take (nat limit)
       (sort_by rated_before
          (filter (\<lambda>(m, a, c). c \<ge> 1)
             (map (\<lambda>m. (m, avgRating_subquery d (movie_id m), ratingCount_subquery d (movie_id m)))
                  (movies d))))"

definition getTopRatedMovies :: "platform \<Rightarrow> db \<Rightarrow> string option \<Rightarrow> rated_movie list response" where
  "getTopRatedMovies P d q_limit_v =
     (let limit = parseInt_or P q_limit_v 10
      in if limit < 0 \<or> limit_max P < limit then server_error
         else \<lparr>status = 200, success = True, message = None,
               data = Some (present_rated P (top_rated_query d limit))\<rparr>)"

text \<open>The user's ratings of 4 and more, best first, ten at most.\<close>

definition userHighlyRatedMovies :: "db \<Rightarrow> int \<Rightarrow> rating_row list" where
  "userHighlyRatedMovies d userId =
     take 10 (sort_by (\<lambda>a b. rating a \<ge> rating b)
                (filter (\<lambda>r. r_user_id r = userId \<and> rating r \<ge> 4) (ratings d)))"

text \<open>
  The genres of those movies with the number of joined rows of each, most frequent first,
  three at most; only a genre with a joined row forms a group.
\<close>

definition liked_genres :: "db \<Rightarrow> int list \<Rightarrow> genre list" where
  "liked_genres d movieIds =
     map fst
       (take 3
          (sort_by (\<lambda>a b. snd a \<ge> snd b)
             (filter (\<lambda>(g, c). c \<ge> 1)
                (map (\<lambda>g. (g, length (filter (\<lambda>mg. mg_genre_id mg = genre_id g \<and>
                                                  mg_movie_id mg \<in> set movieIds) (movie_genres d))))
                     (genres d)))))"

text \<open>
  The recommendation query. A movie joins once for each of its genres among the names, and
  each such row joins every rating of the movie, so the aggregates run over the ratings
  repeated once per matching genre; a movie without a matching genre, or rated by the
  user, forms no group.
\<close>

definition recommendation_query :: "db \<Rightarrow> string list \<Rightarrow> int \<Rightarrow> int \<Rightarrow> (movie \<times> rat \<times> nat) list" where
  "recommendation_query d genreNames userId limit =
     take (nat limit)
       (sort_by rated_before
          (concat (map (\<lambda>m.
             (let matches = length (filter (\<lambda>g. name g \<in> set genreNames) (genres_of d m));
                  joined = concat (replicate matches (map rating (movie_ratings d (movie_id m))))
              in if matches = 0 \<or>
                    movie_id m \<in> set (map r_movie_id (filter (\<lambda>r. r_user_id r = userId) (ratings d)))
                 then []
                 else [(m, coalesce (sql_avg joined) 0, length joined)]))
            (movies d))))"

definition getRecommendations ::
  "platform \<Rightarrow> db \<Rightarrow> int \<Rightarrow> string option \<Rightarrow> rated_movie list response" where
  "getRecommendations P d userId q_limit_v =
     (let limit = parseInt_or P q_limit_v 10
      in if userHighlyRatedMovies d userId = [] then getTopRatedMovies P d q_limit_v
         else
           (let movieIds = map r_movie_id (userHighlyRatedMovies d userId);
                genreNames = map name (liked_genres d movieIds)
            in if genreNames = [] then getTopRatedMovies P d q_limit_v
               else if limit < 0 \<or> limit_max P < limit then server_error
               else \<lparr>status = 200, success = True, message = None,
                     data = Some (present_rated P (recommendation_query d genreNames userId limit))\<rparr>))"


section \<open>A concrete platform and a concrete database\<close>

text \<open>
  One choice of the platform's functions and one small state, at which the theorems below
  are instantiated: decimal digits for the number conversions, substring search for
  \<open>LIKE\<close>, the character order for the collation, a token table of one entry per user,
  a rating column that stores a finite number as it is, and the unsigned 64-bit range for
  \<open>LIMIT\<close> and \<open>OFFSET\<close>.
\<close>

definition digit_val :: "char \<Rightarrow> int option" where
  "digit_val c =
     (if 48 \<le> (of_char c :: nat) \<and> (of_char c :: nat) \<le> 57 then Some (int (of_char c) - 48) else None)"

fun parse_digits :: "int \<Rightarrow> string \<Rightarrow> int option" where
  "parse_digits acc [] = Some acc"
| "parse_digits acc (c # cs) =
     (case digit_val c of None \<Rightarrow> None | Some v \<Rightarrow> parse_digits (10 * acc + v) cs)"

definition parse_nat_literal :: "string \<Rightarrow> int option" where
  "parse_nat_literal s = (if s = [] then None else parse_digits 0 s)"

definition number_of_literal :: "string \<Rightarrow> jsnum" where
  "number_of_literal s = (case parse_nat_literal s of None \<Rightarrow> NaN | Some n \<Rightarrow> Fin (of_int n))"

definition digit_char :: "nat \<Rightarrow> char" where
  "digit_char n = char_of (48 + n mod 10)"

definition one_decimal :: "rat \<Rightarrow> string" where
  "one_decimal r =
     (let t = nat \<lfloor>r * 10 + 1 / 2\<rfloor>; w = t div 10
      in (if w < 10 then [digit_char w] else [digit_char (w div 10), digit_char w])
         @ ''.'' @ [digit_char t])"

definition contains :: "string \<Rightarrow> string \<Rightarrow> bool" where
  "contains s v = list_ex (\<lambda>i. take (length s) (drop i v) = s) [0..<Suc (length v)]"

definition like_substring :: "string \<Rightarrow> string \<Rightarrow> bool" where
  "like_substring pattern v = contains (filter (\<lambda>c. c \<noteq> CHR ''%'') pattern) v"

definition stored_as_given :: "jsval \<Rightarrow> rat option" where
  "stored_as_given v = (case v of JNum (Fin r) \<Rightarrow> Some r | _ \<Rightarrow> None)"

definition P0 :: platform where
  "P0 = \<lparr>parseInt = parse_nat_literal,
         parseFloat = number_of_literal,
         StringToNumber = number_of_literal,
         toFixed1 = one_decimal,
         sql_like = like_substring,
         sql_date_between = (\<lambda>v lo hi. lo \<le> v \<and> v \<le> hi),
         collate_le = (\<lambda>a b. a \<le> b),
         jwt_verify = (\<lambda>t. if t = ''token-1'' then Some 1 else if t = ''token-2'' then Some 2 else None),
         rating_on_create = stored_as_given,
         rating_on_update = (\<lambda>old v. if v = JUndefined then Some old else stored_as_given v),
         limit_max = 18446744073709551615\<rparr>"

definition db0 :: db where
  "db0 =
     \<lparr>movies =
        [\<lparr>movie_id = 1, title = ''Alien'', overview = Some ''A crew meets a stowaway'',
          release_date = Some ''1979-05-25'', runtime_minutes = Some 117\<rparr>,
         \<lparr>movie_id = 2, title = ''Brazil'', overview = None,
          release_date = Some ''1985-02-20'', runtime_minutes = Some 142\<rparr>,
         \<lparr>movie_id = 3, title = ''Casablanca'', overview = Some ''Rick runs a cafe'',
          release_date = Some ''1942-11-26'', runtime_minutes = None\<rparr>,
         \<lparr>movie_id = 4, title = ''Dune'', overview = None,
          release_date = None, runtime_minutes = Some 155\<rparr>],
      genres = [\<lparr>genre_id = 1, name = ''Drama''\<rparr>, \<lparr>genre_id = 2, name = ''Sci-Fi''\<rparr>],
      movie_genres =
        [\<lparr>mg_movie_id = 1, mg_genre_id = 2\<rparr>, \<lparr>mg_movie_id = 2, mg_genre_id = 2\<rparr>,
         \<lparr>mg_movie_id = 2, mg_genre_id = 1\<rparr>, \<lparr>mg_movie_id = 3, mg_genre_id = 1\<rparr>],
      ratings =
        [\<lparr>rating_id = 1, r_user_id = 1, r_movie_id = 1, rating = 9, r_timestamp = 10\<rparr>,
         \<lparr>rating_id = 2, r_user_id = 2, r_movie_id = 1, rating = 8, r_timestamp = 11\<rparr>,
         \<lparr>rating_id = 3, r_user_id = 1, r_movie_id = 2, rating = 15 / 2, r_timestamp = 12\<rparr>,
         \<lparr>rating_id = 4, r_user_id = 2, r_movie_id = 3, rating = 3, r_timestamp = 13\<rparr>,
         \<lparr>rating_id = 5, r_user_id = 3, r_movie_id = 3, rating = 3 / 2, r_timestamp = 14\<rparr>],
      reviews =
        [\<lparr>review_id = 1, rv_user_id = 1, rv_movie_id = 1, rv_title = Some ''Tense'',
          content = ''Still works'', is_spoiler = Some False, rv_created_at = 14,
          rv_updated_at = 14\<rparr>],
      users =
        [\<lparr>user_id = 1, username = ''alice'', email = ''alice@example.org'',
          password_hash = ''h1'', first_name = Some ''Alice'', last_name = None,
          bio = Some ''Old films'', profile_image_url = None, is_active = Some True,
          email_verified = Some False\<rparr>,
         \<lparr>user_id = 2, username = ''bob'', email = ''bob@example.org'',
          password_hash = ''h2'', first_name = None, last_name = None,
          bio = None, profile_image_url = None, is_active = Some True,
          email_verified = Some True\<rparr>,
         \<lparr>user_id = 3, username = ''carol'', email = ''carol@example.org'',
          password_hash = ''h3'', first_name = Some ''Carol'', last_name = Some ''Reed'',
          bio = None, profile_image_url = None, is_active = Some True,
          email_verified = Some True\<rparr>],
      user_activity = [],
      next_rating_id = 6,
      next_review_id = 2\<rparr>"

definition q0 :: movies_query where
  "q0 = \<lparr>q_page = None, q_limit = None, q_sort = None, q_genre = None, q_year = None,
         q_search = None, q_minRating = None\<rparr>"


definition q1 :: movies_query where
  "q1 = q0\<lparr>q_limit := Some ''1'', q_minRating := Some ''5''\<rparr>"

definition q2 :: movies_query where
  "q2 = q0\<lparr>q_page := Some ''2'', q_limit := Some ''3'', q_sort := Some ''rating-desc''\<rparr>"

definition q3 :: movies_query where
  "q3 = q0\<lparr>q_limit := Some ''100000000000000000000''\<rparr>"

definition profile_update0 :: profile_update where
  "profile_update0 = \<lparr>u_first_name = Absent, u_last_name = Given ''Liddell'', u_bio = Given []\<rparr>"

definition review_update0 :: review_update where
  "review_update0 = \<lparr>u_title = Given [], u_content = Given ''Better each time'', u_is_spoiler = Null\<rparr>"

definition body0 :: review_body where
  "body0 = \<lparr>b_movie_id = Some 1, b_title = Given ''Again'', b_content = Given ''Seen twice'',
            b_is_spoiler = Absent\<rparr>"

section \<open>Notions of the specification\<close>

text \<open>A rating value outside the interval from 0 to 10; NaN is no value and lies nowhere.\<close>

fun outside_0_10 :: "jsnum \<Rightarrow> bool" where
  "outside_0_10 NaN = False"
| "outside_0_10 NegInf = True"
| "outside_0_10 PosInf = True"
| "outside_0_10 (Fin r) = (r < 0 \<or> 10 < r)"

text \<open>At most one rating row for a pair of user and movie; the primary key of the table.\<close>

definition one_row_per_pair :: "db \<Rightarrow> bool" where
  "one_row_per_pair d = distinct (map (\<lambda>r. (r_user_id r, r_movie_id r)) (ratings d))"

text \<open>The movies of a response of the listing, none when it is an error.\<close>

definition returned_movies :: "movies_page response \<Rightarrow> movie_row list" where
  "returned_movies r = (case data r of None \<Rightarrow> [] | Some pg \<Rightarrow> pm_movies pg)"

text \<open>The page that \<open>getMovies\<close> fetches, before the scan for \<open>minRating\<close>.\<close>

definition fetched_page :: "platform \<Rightarrow> db \<Rightarrow> movies_query \<Rightarrow> movie_row list" where
  "fetched_page P d q =
     snd (findAndCountAll P d q
            (orderClause (case truthy_text (q_sort q) of None \<Rightarrow> ''title-asc'' | Some s \<Rightarrow> s))
            (parseInt_or P (q_limit q) 8)
            ((parseInt_or P (q_page q) 1 - 1) * parseInt_or P (q_limit q) 8))"

text \<open>
  All qualifying movies of a listing with a \<open>minRating\<close>: the instances of the whole result,
  not cut to a page, whose average reaches the minimum.
\<close>

definition all_qualifying :: "platform \<Rightarrow> db \<Rightarrow> movies_query \<Rightarrow> string \<Rightarrow> movie_row list" where
  "all_qualifying P d q minRating_v =
     filter (\<lambda>movie. js_ge (or_zero (Fin (avgRating movie))) (parseFloat P minRating_v))
       (instances d (joined_rows P d q))"

text \<open>
  What an update makes of a field. A text field overwrites the stored value when it is
  supplied and not empty, and the stored value stays when the field is absent, \<open>null\<close> or
  the empty string. The flag overwrites whenever it is supplied, \<open>null\<close> included, and the
  stored value stays when it is absent.
\<close>

fun text_overwrites :: "string field \<Rightarrow> string option \<Rightarrow> string option \<Rightarrow> bool" where
  "text_overwrites (Given s) old new = (if s \<noteq> [] then new = Some s else new = old)"
| "text_overwrites Null old new = (new = old)"
| "text_overwrites Absent old new = (new = old)"

fun flag_overwrites :: "bool field \<Rightarrow> bool option \<Rightarrow> bool option \<Rightarrow> bool" where
  "flag_overwrites (Given b) old new = (new = Some b)"
| "flag_overwrites Null old new = (new = None)"
| "flag_overwrites Absent old new = (new = old)"

definition rating_pk :: "db \<Rightarrow> bool" where
  "rating_pk d = distinct (map rating_id (ratings d))"

section \<open>The rating distribution has nine ranges\<close>


















section \<open>rateMovie: the range check\<close>

lemma outside_fires:
  "outside_0_10 n \<Longrightarrow> js_lt n (Fin 0) \<or> js_lt (Fin 10) n"
  by (cases n) auto

lemma rate_write_status:
  "status (fst (rate_write P now d uid mid v)) = 200 \<or> status (fst (rate_write P now d uid mid v)) = 500"
  by (simp add: rate_write_def rating_submitted_def server_error_def fail_with_def Rating_create_def
      split: option.splits prod.splits)

text \<open>
  Claim C2: a rating whose value lies outside the interval from 0 to 10 is answered with
  status 400 and the message \<open>Rating must be between 0 and 10\<close>, and the state is the one
  before the call: neither the ratings nor the activity table is written.
\<close>

theorem rateMovie_rejects_out_of_range:
  assumes "outside_0_10 (ToNumber P body_rating)"
  shows "status (fst (rateMovie P now d uid mid body_rating)) = 400 \<and>
         message (fst (rateMovie P now d uid mid body_rating)) = Some ''Rating must be between 0 and 10'' \<and>
         success (fst (rateMovie P now d uid mid body_rating)) = False \<and>
         snd (rateMovie P now d uid mid body_rating) = d \<and>
         ratings (snd (rateMovie P now d uid mid body_rating)) = ratings d \<and>
         user_activity (snd (rateMovie P now d uid mid body_rating)) = user_activity d"
proof -
  from outside_fires [OF assms]
  have "rateMovie P now d uid mid body_rating = (fail_with 400 ''Rating must be between 0 and 10'', d)"
    by (simp add: rateMovie_def)
  then show ?thesis by (simp add: fail_with_def)
qed

theorem rateMovie_rejects_out_of_range_witness:
  "outside_0_10 (ToNumber P0 (JNum (Fin 11))) \<and>
   status (fst (rateMovie P0 20 db0 1 1 (JNum (Fin 11)))) = 400 \<and>
   message (fst (rateMovie P0 20 db0 1 1 (JNum (Fin 11)))) = Some ''Rating must be between 0 and 10'' \<and>
   snd (rateMovie P0 20 db0 1 1 (JNum (Fin 11))) = db0 \<and>
   outside_0_10 (ToNumber P0 (JStr ''12'')) \<and>
   status (fst (rateMovie P0 20 db0 1 1 (JStr ''12''))) = 400"
proof -
  have h: "outside_0_10 (ToNumber P0 (JNum (Fin 11)))" by simp
  have h2: "outside_0_10 (ToNumber P0 (JStr ''12''))" by code_simp
  show ?thesis
    using h h2 rateMovie_rejects_out_of_range [OF h, of 20 db0 1 1]
      rateMovie_rejects_out_of_range [OF h2, of 20 db0 1 1]
    by (intro conjI) (elim conjE, assumption)+
qed

text \<open>
  Claim C10: with no \<open>rating\<close> field in the body the range check does not fire; the answer
  is not the 400 of the check, the movie is looked up (404 when it is missing) and, when
  it exists, the call continues with the write path.
\<close>

theorem rateMovie_undefined_passes_check:
  "\<not> (js_lt (ToNumber P JUndefined) (Fin 0) \<or> js_lt (Fin 10) (ToNumber P JUndefined)) \<and>
   status (fst (rateMovie P now d uid mid JUndefined)) \<noteq> 400 \<and>
   message (fst (rateMovie P now d uid mid JUndefined)) \<noteq> Some ''Rating must be between 0 and 10'' \<and>
   (Movie_findByPk d mid = None \<longrightarrow>
      rateMovie P now d uid mid JUndefined = (fail_with 404 ''Movie not found'', d)) \<and>
   (Movie_findByPk d mid \<noteq> None \<longrightarrow>
      rateMovie P now d uid mid JUndefined = rate_write P now d uid mid JUndefined)"
proof (cases "Movie_findByPk d mid")
  case None
  then show ?thesis by (simp add: rateMovie_def fail_with_def)
next
  case (Some m)
  then have e: "rateMovie P now d uid mid JUndefined = rate_write P now d uid mid JUndefined"
    by (simp add: rateMovie_def)
  have "message (fst (rate_write P now d uid mid JUndefined)) \<noteq> Some ''Rating must be between 0 and 10''"
    by (simp add: rate_write_def rating_submitted_def server_error_def fail_with_def Rating_create_def
      split: option.splits prod.splits)
  with e Some rate_write_status [of P now d uid mid JUndefined] show ?thesis by auto
qed

theorem rateMovie_undefined_passes_check_witness:
  "Movie_findByPk db0 9 = None \<and>
   rateMovie P0 20 db0 1 9 JUndefined = (fail_with 404 ''Movie not found'', db0) \<and>
   Movie_findByPk db0 1 \<noteq> None \<and>
   rateMovie P0 20 db0 1 1 JUndefined = rate_write P0 20 db0 1 1 JUndefined \<and>
   status (fst (rateMovie P0 20 db0 1 1 JUndefined)) = 200 \<and>
   status (fst (rateMovie P0 20 db0 1 3 JUndefined)) = 500"
proof -
  have a: "Movie_findByPk db0 9 = None" by code_simp
  have b: "Movie_findByPk db0 1 \<noteq> None" by code_simp
  have c: "status (fst (rate_write P0 20 db0 1 1 JUndefined)) = 200" by code_simp
  have d: "status (fst (rateMovie P0 20 db0 1 3 JUndefined)) = 500" by code_simp
  from a rateMovie_undefined_passes_check [of P0 20 db0 1 9]
  have a': "rateMovie P0 20 db0 1 9 JUndefined = (fail_with 404 ''Movie not found'', db0)" by blast
  from b rateMovie_undefined_passes_check [of P0 20 db0 1 1]
  have b': "rateMovie P0 20 db0 1 1 JUndefined = rate_write P0 20 db0 1 1 JUndefined" by blast
  from a a' b b' c d show ?thesis by simp
qed

section \<open>createReview\<close>

lemma find_Some_if_ex:
  assumes "\<exists>x \<in> set xs. Q x"
  shows "\<exists>y. find Q xs = Some y"
  using assms by (cases "find Q xs") (auto simp: find_None_iff)

text \<open>
  Claim C4: when a review row for the user and the movie exists, \<open>createReview\<close> for that
  pair answers 400 with the message \<open>You have already reviewed this movie\<close>, and the state
  is the one before the call: no review row is inserted.
\<close>

theorem createReview_rejects_second_review:
  assumes "mid \<in> movie_id ` set (movies d)"
      and "\<exists>r \<in> set (reviews d). rv_user_id r = uid \<and> rv_movie_id r = mid"
      and "b_movie_id body = Some mid"
  shows "status (fst (createReview P now d uid body)) = 400 \<and>
         message (fst (createReview P now d uid body)) = Some ''You have already reviewed this movie'' \<and>
         success (fst (createReview P now d uid body)) = False \<and>
         snd (createReview P now d uid body) = d \<and>
         reviews (snd (createReview P now d uid body)) = reviews d"
proof -
  from assms(1) have "\<exists>m \<in> set (movies d). movie_id m = mid" by auto
  from find_Some_if_ex [OF this] obtain m where m: "Movie_findByPk d mid = Some m"
    by (auto simp: Movie_findByPk_def)
  from find_Some_if_ex [OF assms(2)] obtain r where r: "Review_findOne d uid mid = Some r"
    by (auto simp: Review_findOne_def)
  from m r assms(3)
  have "createReview P now d uid body = (fail_with 400 ''You have already reviewed this movie'', d)"
    by (simp add: createReview_def)
  then show ?thesis by (simp add: fail_with_def)
qed

theorem createReview_rejects_second_review_witness:
  "1 \<in> movie_id ` set (movies db0) \<and>
   (\<exists>r \<in> set (reviews db0). rv_user_id r = 1 \<and> rv_movie_id r = 1) \<and>
   b_movie_id body0 = Some 1 \<and>
   status (fst (createReview P0 20 db0 1 body0)) = 400 \<and>
   message (fst (createReview P0 20 db0 1 body0)) = Some ''You have already reviewed this movie'' \<and>
   reviews (snd (createReview P0 20 db0 1 body0)) = reviews db0 \<and>
   status (fst (createReview P0 20 db0 2 body0)) = 201 \<and>
   length (reviews (snd (createReview P0 20 db0 2 body0))) = 2"
proof -
  have a: "1 \<in> movie_id ` set (movies db0)" by (simp add: db0_def)
  have b: "\<exists>r \<in> set (reviews db0). rv_user_id r = 1 \<and> rv_movie_id r = 1" by (simp add: db0_def)
  have c: "b_movie_id body0 = Some 1" by (simp add: body0_def)
  have d: "status (fst (createReview P0 20 db0 2 body0)) = 201" by code_simp
  have e: "length (reviews (snd (createReview P0 20 db0 2 body0))) = 2" by code_simp
  from createReview_rejects_second_review [OF a b c, of P0 20] a b c d e
  show ?thesis by (intro conjI) (elim conjE, assumption)+
qed

section \<open>Recommendations fall back to the top-rated list\<close>

lemma sort_by_Nil: "sort_by le [] = []"
  by (simp add: sort_by_def)

lemma no_high_rating:
  assumes "\<forall>r \<in> set (ratings d). r_user_id r = userId \<longrightarrow> rating r < 4"
  shows "userHighlyRatedMovies d userId = []"
proof -
  from assms have "filter (\<lambda>r. r_user_id r = userId \<and> rating r \<ge> 4) (ratings d) = []"
    by (auto simp: filter_empty_conv)
  then show ?thesis by (simp add: userHighlyRatedMovies_def sort_by_Nil)
qed

text \<open>
  Claim C5: for a user none of whose ratings is 4 or more, \<open>getRecommendations\<close> answers
  what \<open>getTopRatedMovies\<close> answers for the same \<open>limit\<close> parameter.
\<close>

theorem recommendations_fall_back_to_top_rated:
  assumes "\<forall>r \<in> set (ratings d). r_user_id r = userId \<longrightarrow> rating r < 4"
  shows "getRecommendations P d userId q_limit_v = getTopRatedMovies P d q_limit_v"
  using no_high_rating [OF assms] by (simp add: getRecommendations_def)

theorem recommendations_fall_back_to_top_rated_witness:
  "list_all (\<lambda>r. r_user_id r \<noteq> 3 \<or> rating r < 4) (ratings db0) \<and>
   list_ex (\<lambda>r. r_user_id r = 3) (ratings db0) \<and>
   getRecommendations P0 db0 3 (Some ''2'') = getTopRatedMovies P0 db0 (Some ''2'') \<and>
   map (\<lambda>m. (title (rm_movie m), rm_avgRating m, rm_ratingCount m))
     (case data (getRecommendations P0 db0 3 (Some ''2'')) of None \<Rightarrow> [] | Some ms \<Rightarrow> ms) =
     [(''Alien'', ''8.5'', 2), (''Brazil'', ''7.5'', 1)] \<and>
   getRecommendations P0 db0 2 (Some ''2'') \<noteq> getTopRatedMovies P0 db0 (Some ''2'')"
proof -
  have a: "list_all (\<lambda>r. r_user_id r \<noteq> 3 \<or> rating r < 4) (ratings db0)" by code_simp
  then have h: "\<forall>r \<in> set (ratings db0). r_user_id r = 3 \<longrightarrow> rating r < 4"
    by (auto simp: list_all_iff)
  have b: "list_ex (\<lambda>r. r_user_id r = 3) (ratings db0)" by code_simp
  have c: "map (\<lambda>m. (title (rm_movie m), rm_avgRating m, rm_ratingCount m))
     (case data (getTopRatedMovies P0 db0 (Some ''2'')) of None \<Rightarrow> [] | Some ms \<Rightarrow> ms) =
     [(''Alien'', ''8.5'', 2), (''Brazil'', ''7.5'', 1)]" by code_simp
  have d: "getRecommendations P0 db0 2 (Some ''2'') \<noteq> getTopRatedMovies P0 db0 (Some ''2'')"
    by code_simp
  from recommendations_fall_back_to_top_rated [OF h, of P0 "Some ''2''"] a b c d
  show ?thesis by simp
qed

section \<open>The listing: annotation of the movies\<close>

lemma avg_fold:
  "foldl (\<lambda>(s, n) x. (s + x, n + 1)) (a, k) xs = (a + sum_list xs, k + length xs)"
  by (induction xs arbitrary: a k) (simp_all add: add.assoc)

lemma coalesce_sql_avg: "coalesce (sql_avg xs) 0 = mean_or_zero xs"
  unfolding sql_avg_def avg_fold by (simp add: coalesce_def mean_or_zero_def)

lemma avgRating_subquery_mean:
  "avgRating_subquery d mid = mean_or_zero (map rating (filter (\<lambda>r. r_movie_id r = mid) (ratings d)))"
  by (simp add: avgRating_subquery_def coalesce_sql_avg movie_ratings_def)

lemma set_insert_by: "set (insert_by le x xs) = insert x (set xs)"
  by (induction xs) auto

lemma set_sort_by: "set (sort_by le xs) = set xs"
  by (induction xs) (simp_all add: sort_by_def set_insert_by)

lemma length_insert_by: "length (insert_by le x xs) = Suc (length xs)"
  by (induction xs) auto

lemma length_sort_by: "length (sort_by le xs) = length xs"
  by (induction xs) (simp_all add: sort_by_def length_insert_by)

lemma set_order_by: "set (order_by le dir xs) = set xs"
  by (cases dir) (simp_all add: order_by_def set_sort_by)

lemma first_by_pk_acc:
  "set (foldl (\<lambda>acc m. if movie_id m \<in> set (map movie_id acc) then acc else acc @ [m]) acc ms)
     \<subseteq> set acc \<union> set ms \<and>
   length (foldl (\<lambda>acc m. if movie_id m \<in> set (map movie_id acc) then acc else acc @ [m]) acc ms)
     \<le> length acc + length ms"
proof (induction ms arbitrary: acc)
  case Nil
  then show ?case by simp
next
  case (Cons m ms)
  show ?case
  proof (cases "movie_id m \<in> set (map movie_id acc)")
    case True
    with Cons.IH [of acc] show ?thesis by auto
  next
    case False
    with Cons.IH [of "acc @ [m]"] show ?thesis by auto
  qed
qed

lemma set_first_by_pk: "set (first_by_pk ms) \<subseteq> set ms"
  using first_by_pk_acc [of "[]" ms] by (simp add: first_by_pk_def)

lemma length_first_by_pk: "length (first_by_pk ms) \<le> length ms"
  using first_by_pk_acc [of "[]" ms] by (simp add: first_by_pk_def)

lemma length_instances: "length (instances d page_rows) \<le> length page_rows"
  using length_first_by_pk [of "map fst page_rows"] by (simp add: instances_def)

lemma instances_row:
  assumes "row \<in> set (instances d page_rows)"
  shows "avgRating row = avgRating_subquery d (movie_id (mr_movie row)) \<and>
         ratingCount row = ratingCount_subquery d (movie_id (mr_movie row)) \<and>
         mr_movie row \<in> fst ` set page_rows"
proof -
  from assms obtain m where m: "m \<in> set (first_by_pk (map fst page_rows))"
    and r: "mr_movie row = m" "avgRating row = avgRating_subquery d (movie_id m)"
      "ratingCount row = ratingCount_subquery d (movie_id m)"
    by (auto simp: instances_def)
  from m set_first_by_pk [of "map fst page_rows"] have "m \<in> fst ` set page_rows" by auto
  with r show ?thesis by simp
qed

lemma joined_rows_movies: "fst ` set (joined_rows P d q) \<subseteq> set (movies d)"
  by (auto simp: joined_rows_def split: option.splits list.splits)

lemma findAndCountAll_rows:
  assumes "row \<in> set (snd (findAndCountAll P d q ord limit offset))"
  shows "avgRating row = avgRating_subquery d (movie_id (mr_movie row)) \<and>
         ratingCount row = ratingCount_subquery d (movie_id (mr_movie row)) \<and>
         mr_movie row \<in> set (movies d)"
proof -
  let ?page = "take (nat limit) (drop (nat offset)
      (order_by (\<lambda>a b. movie_le P d (fst ord) (fst a) (fst b)) (snd ord) (joined_rows P d q)))"
  from assms have "row \<in> set (instances d ?page)"
    by (simp add: findAndCountAll_def Let_def)
  from instances_row [OF this] have r: "avgRating row = avgRating_subquery d (movie_id (mr_movie row))"
    "ratingCount row = ratingCount_subquery d (movie_id (mr_movie row))"
    "mr_movie row \<in> fst ` set ?page" by simp_all
  have "set ?page \<subseteq> set (joined_rows P d q)"
    using set_take_subset set_drop_subset set_order_by by fast
  with r(3) joined_rows_movies [of P d q] have "mr_movie row \<in> set (movies d)" by blast
  with r show ?thesis by simp
qed

lemma length_findAndCountAll:
  "int (length (snd (findAndCountAll P d q ord limit offset))) \<le> max 0 limit"
proof -
  let ?page = "take (nat limit) (drop (nat offset)
      (order_by (\<lambda>a b. movie_le P d (fst ord) (fst a) (fst b)) (snd ord) (joined_rows P d q)))"
  have "length (snd (findAndCountAll P d q ord limit offset)) \<le> length ?page"
    using length_instances [of d ?page] by (simp add: findAndCountAll_def Let_def)
  also have "\<dots> \<le> nat limit" by simp
  finally show ?thesis by simp
qed

text \<open>The shape of the answer of \<open>getMovies\<close> once the storage layer accepts \<open>LIMIT\<close> and \<open>OFFSET\<close>.\<close>

lemma getMovies_returned:
  "set (returned_movies (getMovies P d q)) \<subseteq>
     set (snd (findAndCountAll P d q
        (orderClause (case truthy_text (q_sort q) of None \<Rightarrow> ''title-asc'' | Some s \<Rightarrow> s))
        (parseInt_or P (q_limit q) 8)
        ((parseInt_or P (q_page q) 1 - 1) * parseInt_or P (q_limit q) 8)))"
  by (auto simp: getMovies_def returned_movies_def Let_def server_error_def fail_with_def
      split: prod.splits option.splits)

text \<open>
  Claim C1: every movie that \<open>getMovies\<close> returns is a movie of the table, its \<open>avgRating\<close>
  is the arithmetic mean of the values of its rating rows, 0 when it has none, and its
  \<open>ratingCount\<close> is the number of those rows.
\<close>

theorem getMovies_avgRating_ratingCount:
  assumes "row \<in> set (returned_movies (getMovies P d q))"
  shows "mr_movie row \<in> set (movies d) \<and>
         avgRating row =
           mean_or_zero (map rating (filter (\<lambda>r. r_movie_id r = movie_id (mr_movie row)) (ratings d))) \<and>
         ratingCount row =
           length (filter (\<lambda>r. r_movie_id r = movie_id (mr_movie row)) (ratings d))"
proof -
  from assms getMovies_returned [of P d q] obtain ord limit offset
    where "row \<in> set (snd (findAndCountAll P d q ord limit offset))" by blast
  from findAndCountAll_rows [OF this] show ?thesis
    by (simp add: avgRating_subquery_mean ratingCount_subquery_def movie_ratings_def)
qed

theorem getMovies_avgRating_ratingCount_witness:
  "map (\<lambda>row. (title (mr_movie row), avgRating row, ratingCount row))
     (returned_movies (getMovies P0 db0 q0)) =
     [(''Alien'', 17 / 2, 2), (''Brazil'', 15 / 2, 1), (''Casablanca'', 9 / 4, 2), (''Dune'', 0, 0)] \<and>
   list_all (\<lambda>row. mr_movie row \<in> set (movies db0) \<and>
         avgRating row =
           mean_or_zero (map rating (filter (\<lambda>r. r_movie_id r = movie_id (mr_movie row)) (ratings db0))) \<and>
         ratingCount row =
           length (filter (\<lambda>r. r_movie_id r = movie_id (mr_movie row)) (ratings db0)))
     (returned_movies (getMovies P0 db0 q0))"
proof -
  have a: "map (\<lambda>row. (title (mr_movie row), avgRating row, ratingCount row))
     (returned_movies (getMovies P0 db0 q0)) =
     [(''Alien'', 17 / 2, 2), (''Brazil'', 15 / 2, 1), (''Casablanca'', 9 / 4, 2), (''Dune'', 0, 0)]"
    by code_simp
  have b: "list_all (\<lambda>row. mr_movie row \<in> set (movies db0) \<and>
         avgRating row =
           mean_or_zero (map rating (filter (\<lambda>r. r_movie_id r = movie_id (mr_movie row)) (ratings db0))) \<and>
         ratingCount row =
           length (filter (\<lambda>r. r_movie_id r = movie_id (mr_movie row)) (ratings db0)))
     (returned_movies (getMovies P0 db0 q0))"
    unfolding list_all_iff using getMovies_avgRating_ratingCount [of _ P0 db0 q0] by blast
  from a b show ?thesis by (intro conjI)
qed

section \<open>The listing: pagination\<close>

lemma ceiling_sandwich:
  fixes t l :: int
  assumes "1 \<le> l"
  shows "(\<lceil>(of_int t :: rat) / of_int l\<rceil> - 1) * l < t \<and> t \<le> \<lceil>(of_int t :: rat) / of_int l\<rceil> * l"
proof -
  let ?c = "\<lceil>(of_int t :: rat) / of_int l\<rceil>"
  from assms have l: "(0 :: rat) < of_int l" by simp
  have c1: "(of_int t :: rat) / of_int l \<le> of_int ?c" by (rule le_of_int_ceiling)
  have "(of_int t :: rat) \<le> of_int ?c * of_int l"
    by (rule pos_divide_le_eq [OF l, THEN iffD1, OF c1])
  then have "(of_int t :: rat) \<le> of_int (?c * l)" by (simp only: of_int_mult)
  then have u: "t \<le> ?c * l" by (simp only: of_int_le_iff)
  have c2: "of_int ?c - 1 < (of_int t :: rat) / of_int l"
    using ceiling_correct [of "(of_int t :: rat) / of_int l"] by (elim conjE)
  have "(of_int ?c - 1) * of_int l < (of_int t :: rat)"
    by (rule pos_less_divide_eq [OF l, THEN iffD1, OF c2])
  then have "(of_int ((?c - 1) * l) :: rat) < of_int t"
    by (simp only: of_int_mult of_int_diff of_int_1)
  then have "(?c - 1) * l < t" by (simp only: of_int_less_iff)
  with u show ?thesis by simp
qed

lemma getMovies_ok:
  assumes "1 \<le> parseInt_or P (q_page q) 1" and "1 \<le> parseInt_or P (q_limit q) 8"
      and "parseInt_or P (q_limit q) 8 \<le> limit_max P"
      and "(parseInt_or P (q_page q) 1 - 1) * parseInt_or P (q_limit q) 8 \<le> limit_max P"
  shows "getMovies P d q =
     (let page = parseInt_or P (q_page q) 1;
          limit = parseInt_or P (q_limit q) 8;
          rows = snd (findAndCountAll P d q
                  (orderClause (case truthy_text (q_sort q) of None \<Rightarrow> ''title-asc'' | Some s \<Rightarrow> s))
                  limit ((page - 1) * limit));
          count = fst (findAndCountAll P d q
                  (orderClause (case truthy_text (q_sort q) of None \<Rightarrow> ''title-asc'' | Some s \<Rightarrow> s))
                  limit ((page - 1) * limit));
          filteredMovies =
            (case truthy_text (q_minRating q) of
               None \<Rightarrow> rows
             | Some minRating_v \<Rightarrow>
                 filter (\<lambda>movie. js_ge (or_zero (Fin (avgRating movie))) (parseFloat P minRating_v)) rows);
          total_v = (case truthy_text (q_minRating q) of None \<Rightarrow> count
                     | Some _ \<Rightarrow> int (length filteredMovies))
      in \<lparr>status = 200, success = True, message = None,
          data = Some \<lparr>pm_movies = filteredMovies,
                       pm_pagination =
                         \<lparr>pg_page = page, pg_limit = limit, total = total_v,
                          pages = \<lceil>(of_int total_v :: rat) / of_int limit\<rceil>\<rparr>\<rparr>\<rparr>)"
proof -
  from assms(1,2) have "0 \<le> (parseInt_or P (q_page q) 1 - 1) * parseInt_or P (q_limit q) 8"
    by (intro mult_nonneg_nonneg) simp_all
  with assms(2,3,4) have "\<not> (parseInt_or P (q_limit q) 8 < 0 \<or>
      (parseInt_or P (q_page q) 1 - 1) * parseInt_or P (q_limit q) 8 < 0 \<or>
      limit_max P < parseInt_or P (q_limit q) 8 \<or>
      limit_max P < (parseInt_or P (q_page q) 1 - 1) * parseInt_or P (q_limit q) 8)" by simp
  then show ?thesis
    unfolding getMovies_def Let_def by (simp add: case_prod_beta)
qed

lemma minRating_undercount:
  "truthy_text (q_minRating q1) = Some ''5'' \<and>
   map (\<lambda>pg. total (pm_pagination pg)) (case data (getMovies P0 db0 q1) of None \<Rightarrow> [] | Some pg \<Rightarrow> [pg]) = [1] \<and>
   length (all_qualifying P0 db0 q1 ''5'') = 2"
  by code_simp

text \<open>
  Claim C7: for a valid page and limit, that is a page and a limit of at least 1 (given or
  by default) whose \<open>LIMIT\<close> and \<open>OFFSET\<close> the storage layer accepts, \<open>getMovies\<close> answers
  200 with at most \<open>limit\<close> movies, and \<open>pages\<close> is the ceiling of \<open>total / limit\<close>, the least
  number of pages of \<open>limit\<close> rows that hold \<open>total\<close> rows. With a \<open>minRating\<close> the movies are
  those of the fetched page whose average reaches it and \<open>total\<close> is their number; that
  number can be less than the number of all qualifying movies.
\<close>

theorem getMovies_pagination:
  assumes "1 \<le> parseInt_or P (q_page q) 1" and "1 \<le> parseInt_or P (q_limit q) 8"
      and "parseInt_or P (q_limit q) 8 \<le> limit_max P"
      and "(parseInt_or P (q_page q) 1 - 1) * parseInt_or P (q_limit q) 8 \<le> limit_max P"
  shows "\<exists>pg. data (getMovies P d q) = Some pg \<and> status (getMovies P d q) = 200 \<and>
     pg_page (pm_pagination pg) = parseInt_or P (q_page q) 1 \<and>
     pg_limit (pm_pagination pg) = parseInt_or P (q_limit q) 8 \<and>
     int (length (pm_movies pg)) \<le> pg_limit (pm_pagination pg) \<and>
     pages (pm_pagination pg) =
       \<lceil>(of_int (total (pm_pagination pg)) :: rat) / of_int (pg_limit (pm_pagination pg))\<rceil> \<and>
     (pages (pm_pagination pg) - 1) * pg_limit (pm_pagination pg) < total (pm_pagination pg) \<and>
     total (pm_pagination pg) \<le> pages (pm_pagination pg) * pg_limit (pm_pagination pg) \<and>
     (\<forall>minRating_v. truthy_text (q_minRating q) = Some minRating_v \<longrightarrow>
        pm_movies pg =
          filter (\<lambda>movie. js_ge (or_zero (Fin (avgRating movie))) (parseFloat P minRating_v))
            (fetched_page P d q) \<and>
        total (pm_pagination pg) = int (length (pm_movies pg))) \<and>
     (\<exists>P' d' q' minRating_v' pg'.
        truthy_text (q_minRating q') = Some minRating_v' \<and>
        data (getMovies P' d' q') = Some pg' \<and>
        total (pm_pagination pg') < int (length (all_qualifying P' d' q' minRating_v')))"
proof -
  let ?limit = "parseInt_or P (q_limit q) 8"
  let ?rows = "fetched_page P d q"
  let ?filtered = "case truthy_text (q_minRating q) of
               None \<Rightarrow> ?rows
             | Some minRating_v \<Rightarrow>
                 filter (\<lambda>movie. js_ge (or_zero (Fin (avgRating movie))) (parseFloat P minRating_v)) ?rows"
  obtain pg where pg: "data (getMovies P d q) = Some pg" and st: "status (getMovies P d q) = 200"
    and pp: "pg_page (pm_pagination pg) = parseInt_or P (q_page q) 1"
    and pl: "pg_limit (pm_pagination pg) = ?limit"
    and pm: "pm_movies pg = ?filtered"
    and pc: "pages (pm_pagination pg) =
       \<lceil>(of_int (total (pm_pagination pg)) :: rat) / of_int ?limit\<rceil>"
    and pt: "\<And>minRating_v. truthy_text (q_minRating q) = Some minRating_v \<Longrightarrow>
        total (pm_pagination pg) = int (length ?filtered)"
    unfolding getMovies_ok [OF assms] fetched_page_def Let_def by (simp split: option.splits)
  have "length ?filtered \<le> length ?rows" by (simp split: option.splits)
  moreover have "int (length ?rows) \<le> max 0 ?limit"
    unfolding fetched_page_def by (rule length_findAndCountAll)
  ultimately have len: "int (length (pm_movies pg)) \<le> pg_limit (pm_pagination pg)"
    using assms(2) pm pl by simp
  from assms(2) pl have "1 \<le> pg_limit (pm_pagination pg)" by simp
  from ceiling_sandwich [OF this, of "total (pm_pagination pg)"] pc pl
  have sw: "(pages (pm_pagination pg) - 1) * pg_limit (pm_pagination pg) < total (pm_pagination pg)"
    "total (pm_pagination pg) \<le> pages (pm_pagination pg) * pg_limit (pm_pagination pg)"
    by simp_all
  have mr: "\<forall>minRating_v. truthy_text (q_minRating q) = Some minRating_v \<longrightarrow>
        pm_movies pg =
          filter (\<lambda>movie. js_ge (or_zero (Fin (avgRating movie))) (parseFloat P minRating_v)) ?rows \<and>
        total (pm_pagination pg) = int (length (pm_movies pg))"
    using pm pt by simp
  have ex: "\<exists>P' d' q' minRating_v' pg'.
        truthy_text (q_minRating q') = Some minRating_v' \<and>
        data (getMovies P' d' q') = Some pg' \<and>
        total (pm_pagination pg') < int (length (all_qualifying P' d' q' minRating_v'))"
  proof -
    from minRating_undercount obtain pg' where "data (getMovies P0 db0 q1) = Some pg'"
      "total (pm_pagination pg') = 1"
      by (cases "data (getMovies P0 db0 q1)") auto
    with minRating_undercount show ?thesis by (intro exI [of _ P0] exI [of _ db0] exI [of _ q1] exI [of _ "''5''"] exI [of _ pg']) simp
  qed
  from pg st pp pl len pc sw mr ex show ?thesis
    by (intro exI [of _ pg] conjI) (simp_all only:)
qed

theorem getMovies_pagination_witness:
  "1 \<le> parseInt_or P0 (q_page q1) 1 \<and> 1 \<le> parseInt_or P0 (q_limit q1) 8 \<and>
   parseInt_or P0 (q_limit q1) 8 \<le> limit_max P0 \<and>
   (parseInt_or P0 (q_page q1) 1 - 1) * parseInt_or P0 (q_limit q1) 8 \<le> limit_max P0 \<and>
   truthy_text (q_minRating q1) = Some ''5'' \<and>
   map (\<lambda>pg. (map (title \<circ> mr_movie) (pm_movies pg), pg_page (pm_pagination pg),
               pg_limit (pm_pagination pg), total (pm_pagination pg), pages (pm_pagination pg)))
     (case data (getMovies P0 db0 q1) of None \<Rightarrow> [] | Some pg \<Rightarrow> [pg]) = [([''Alien''], 1, 1, 1, 1)] \<and>
   map (title \<circ> mr_movie) (all_qualifying P0 db0 q1 ''5'') = [''Alien'', ''Brazil''] \<and>
   1 \<le> parseInt_or P0 (q_page q2) 1 \<and> 1 \<le> parseInt_or P0 (q_limit q2) 8 \<and>
   parseInt_or P0 (q_limit q2) 8 \<le> limit_max P0 \<and>
   (parseInt_or P0 (q_page q2) 1 - 1) * parseInt_or P0 (q_limit q2) 8 \<le> limit_max P0 \<and>
   length (joined_rows P0 db0 q2) = 5 \<and>
   map (\<lambda>pg. (map (title \<circ> mr_movie) (pm_movies pg), pg_page (pm_pagination pg),
               pg_limit (pm_pagination pg), total (pm_pagination pg), pages (pm_pagination pg)))
     (case data (getMovies P0 db0 q2) of None \<Rightarrow> [] | Some pg \<Rightarrow> [pg]) =
     [([''Casablanca'', ''Dune''], 2, 3, 5, 2)] \<and>
   map (\<lambda>pg. (map (title \<circ> mr_movie) (pm_movies pg), pg_page (pm_pagination pg),
               pg_limit (pm_pagination pg), total (pm_pagination pg), pages (pm_pagination pg)))
     (case data (getMovies P0 db0 q0) of None \<Rightarrow> [] | Some pg \<Rightarrow> [pg]) =
     [([''Alien'', ''Brazil'', ''Casablanca'', ''Dune''], 1, 8, 5, 1)] \<and>
   limit_max P0 < parseInt_or P0 (q_limit q3) 8 \<and> status (getMovies P0 db0 q3) = 500 \<and>
   (\<exists>pg. data (getMovies P0 db0 q1) = Some pg \<and>
      int (length (pm_movies pg)) \<le> pg_limit (pm_pagination pg) \<and>
      pages (pm_pagination pg) =
        \<lceil>(of_int (total (pm_pagination pg)) :: rat) / of_int (pg_limit (pm_pagination pg))\<rceil> \<and>
      total (pm_pagination pg) = int (length (pm_movies pg))) \<and>
   (\<exists>pg. data (getMovies P0 db0 q2) = Some pg \<and>
      int (length (pm_movies pg)) \<le> pg_limit (pm_pagination pg) \<and>
      pages (pm_pagination pg) =
        \<lceil>(of_int (total (pm_pagination pg)) :: rat) / of_int (pg_limit (pm_pagination pg))\<rceil>)"
proof -
  have h1: "1 \<le> parseInt_or P0 (q_page q1) 1" by code_simp
  have h2: "1 \<le> parseInt_or P0 (q_limit q1) 8" by code_simp
  have h2a: "parseInt_or P0 (q_limit q1) 8 \<le> limit_max P0" by code_simp
  have h2b: "(parseInt_or P0 (q_page q1) 1 - 1) * parseInt_or P0 (q_limit q1) 8 \<le> limit_max P0"
    by code_simp
  have h3: "truthy_text (q_minRating q1) = Some ''5''" by code_simp
  have a: "map (\<lambda>pg. (map (title \<circ> mr_movie) (pm_movies pg), pg_page (pm_pagination pg),
               pg_limit (pm_pagination pg), total (pm_pagination pg), pages (pm_pagination pg)))
     (case data (getMovies P0 db0 q1) of None \<Rightarrow> [] | Some pg \<Rightarrow> [pg]) = [([''Alien''], 1, 1, 1, 1)]"
    by code_simp
  have b: "map (title \<circ> mr_movie) (all_qualifying P0 db0 q1 ''5'') = [''Alien'', ''Brazil'']"
    by code_simp
  have h4: "1 \<le> parseInt_or P0 (q_page q2) 1" by code_simp
  have h5: "1 \<le> parseInt_or P0 (q_limit q2) 8" by code_simp
  have h5a: "parseInt_or P0 (q_limit q2) 8 \<le> limit_max P0" by code_simp
  have h5b: "(parseInt_or P0 (q_page q2) 1 - 1) * parseInt_or P0 (q_limit q2) 8 \<le> limit_max P0"
    by code_simp
  have j: "length (joined_rows P0 db0 q2) = 5" by code_simp
  have c: "map (\<lambda>pg. (map (title \<circ> mr_movie) (pm_movies pg), pg_page (pm_pagination pg),
               pg_limit (pm_pagination pg), total (pm_pagination pg), pages (pm_pagination pg)))
     (case data (getMovies P0 db0 q2) of None \<Rightarrow> [] | Some pg \<Rightarrow> [pg]) =
     [([''Casablanca'', ''Dune''], 2, 3, 5, 2)]"
    by code_simp
  have c0: "map (\<lambda>pg. (map (title \<circ> mr_movie) (pm_movies pg), pg_page (pm_pagination pg),
               pg_limit (pm_pagination pg), total (pm_pagination pg), pages (pm_pagination pg)))
     (case data (getMovies P0 db0 q0) of None \<Rightarrow> [] | Some pg \<Rightarrow> [pg]) =
     [([''Alien'', ''Brazil'', ''Casablanca'', ''Dune''], 1, 8, 5, 1)]"
    by code_simp
  have o1: "limit_max P0 < parseInt_or P0 (q_limit q3) 8" by code_simp
  have o2: "status (getMovies P0 db0 q3) = 500" by code_simp
  from getMovies_pagination [OF h1 h2 h2a h2b, of db0] h3
  have e: "\<exists>pg. data (getMovies P0 db0 q1) = Some pg \<and>
      int (length (pm_movies pg)) \<le> pg_limit (pm_pagination pg) \<and>
      pages (pm_pagination pg) =
        \<lceil>(of_int (total (pm_pagination pg)) :: rat) / of_int (pg_limit (pm_pagination pg))\<rceil> \<and>
      total (pm_pagination pg) = int (length (pm_movies pg))"
    by blast
  from getMovies_pagination [OF h4 h5 h5a h5b, of db0]
  have e2: "\<exists>pg. data (getMovies P0 db0 q2) = Some pg \<and>
      int (length (pm_movies pg)) \<le> pg_limit (pm_pagination pg) \<and>
      pages (pm_pagination pg) =
        \<lceil>(of_int (total (pm_pagination pg)) :: rat) / of_int (pg_limit (pm_pagination pg))\<rceil>"
    by blast
  from h1 h2 h2a h2b h3 a b h4 h5 h5a h5b j c c0 o1 o2 e e2 show ?thesis by (intro conjI)
qed

section \<open>rateMovie: one row per user and movie\<close>

lemma distinct_map_eq:
  assumes "distinct (map f xs)" "x \<in> set xs" "y \<in> set xs" "f x = f y"
  shows "x = y"
  using assms by (meson distinct_map inj_on_def)

lemma find_SomeD: "find Q xs = Some y \<Longrightarrow> y \<in> set xs \<and> Q y"
  by (induction xs) (auto split: if_splits)

lemma Rating_findOne_unique:
  assumes "one_row_per_pair d" "ex \<in> set (ratings d)" "r_user_id ex = uid" "r_movie_id ex = mid"
  shows "Rating_findOne d uid mid = Some ex"
proof -
  from assms(2-4) have "\<exists>x \<in> set (ratings d). r_user_id x = uid \<and> r_movie_id x = mid" by blast
  from find_Some_if_ex [OF this] obtain y where y: "Rating_findOne d uid mid = Some y"
    by (auto simp: Rating_findOne_def)
  from find_SomeD [OF y [unfolded Rating_findOne_def]]
  have "y \<in> set (ratings d)" "r_user_id y = uid" "r_movie_id y = mid" by simp_all
  with assms have "y = ex"
    unfolding one_row_per_pair_def
    by (intro distinct_map_eq [of "\<lambda>r. (r_user_id r, r_movie_id r)" "ratings d"]) simp_all
  with y show ?thesis by simp
qed

lemma Rating_update_rows:
  assumes "rating_pk d" "ex \<in> set (ratings d)"
  shows "ratings (Rating_update d ex v) = map (\<lambda>x. if x = ex then ex\<lparr>rating := v\<rparr> else x) (ratings d)"
proof -
  have "\<And>x. x \<in> set (ratings d) \<Longrightarrow> (rating_id x = rating_id ex) = (x = ex)"
    using assms distinct_map_eq [of rating_id "ratings d"] unfolding rating_pk_def by blast
  then show ?thesis by (auto simp: Rating_update_def)
qed

lemma Rating_update_keys:
  "map (\<lambda>r. (r_user_id r, r_movie_id r)) (ratings (Rating_update d ex v)) =
   map (\<lambda>r. (r_user_id r, r_movie_id r)) (ratings d) \<and>
   map rating_id (ratings (Rating_update d ex v)) = map rating_id (ratings d)"
  by (simp add: Rating_update_def comp_def if_distrib cong: if_cong)

lemma ratings_log_activity: "ratings (log_activity d uid mid) = ratings d"
  by (simp add: log_activity_def)

lemma rate_write_update:
  assumes "Rating_findOne d uid mid = Some ex"
  shows "rate_write P now d uid mid b =
     (case rating_on_update P (rating ex) b of
        None \<Rightarrow> (server_error, d)
      | Some v \<Rightarrow> (rating_submitted (ex\<lparr>rating := v\<rparr>), log_activity (Rating_update d ex v) uid mid))"
  using assms by (simp add: rate_write_def)

lemma rate_write_inv:
  assumes "one_row_per_pair d"
  shows "one_row_per_pair (snd (rate_write P now d uid mid b))"
proof (cases "Rating_findOne d uid mid")
  case (Some ex)
  show ?thesis
  proof (cases "rating_on_update P (rating ex) b")
    case None
    with Some assms show ?thesis by (simp add: rate_write_def)
  next
    case (Some v)
    with \<open>Rating_findOne d uid mid = Some ex\<close> assms Rating_update_keys [of d ex v]
    show ?thesis by (simp add: rate_write_def one_row_per_pair_def ratings_log_activity)
  qed
next
  case None
  then have nk: "(uid, mid) \<notin> set (map (\<lambda>r. (r_user_id r, r_movie_id r)) (ratings d))"
    by (auto simp: Rating_findOne_def find_None_iff)
  show ?thesis
  proof (cases "rating_on_create P b")
    case None
    with \<open>Rating_findOne d uid mid = None\<close> assms show ?thesis by (simp add: rate_write_def)
  next
    case (Some v)
    with \<open>Rating_findOne d uid mid = None\<close> assms nk show ?thesis
      by (simp add: rate_write_def one_row_per_pair_def ratings_log_activity Rating_create_def Let_def)
  qed
qed

lemma rateMovie_inv:
  assumes "one_row_per_pair d"
  shows "one_row_per_pair (snd (rateMovie P now d uid mid b))"
  using assms rate_write_inv [OF assms]
  by (simp add: rateMovie_def split: option.splits)

lemma rateMovie_no_insert:
  assumes "Rating_findOne d uid mid = Some ex"
  shows "length (ratings (snd (rateMovie P now d uid mid b))) = length (ratings d)"
  using assms
  by (simp add: rateMovie_def rate_write_def ratings_log_activity Rating_update_def
      split: option.splits)

text \<open>
  Claim C3: when a rating row of the user and the movie exists, a call of \<open>rateMovie\<close> with a
  rating from 0 to 10 that the storage layer accepts answers 200, gives the existing row
  the stored value and leaves every other row as it is; whatever the body, no row is
  inserted; and from a table with at most one row per pair every call of \<open>rateMovie\<close> leads
  to such a table again.
\<close>

theorem rateMovie_second_rating_updates:
  assumes "mid \<in> movie_id ` set (movies d)"
      and "ex \<in> set (ratings d)" and "r_user_id ex = uid" and "r_movie_id ex = mid"
      and "one_row_per_pair d" and "rating_pk d"
      and "0 \<le> r" and "r \<le> 10"
      and "rating_on_update P (rating ex) (JNum (Fin r)) = Some v"
  shows "status (fst (rateMovie P now d uid mid (JNum (Fin r)))) = 200 \<and>
         data (fst (rateMovie P now d uid mid (JNum (Fin r)))) = Some (ex\<lparr>rating := v\<rparr>) \<and>
         ratings (snd (rateMovie P now d uid mid (JNum (Fin r)))) =
           map (\<lambda>x. if x = ex then ex\<lparr>rating := v\<rparr> else x) (ratings d) \<and>
         length (ratings (snd (rateMovie P now d uid mid (JNum (Fin r))))) = length (ratings d) \<and>
         (\<forall>t b. length (ratings (snd (rateMovie P t d uid mid b))) = length (ratings d)) \<and>
         (\<forall>t u m b. one_row_per_pair (snd (rateMovie P t d u m b)))"
proof -
  from assms(1) have "\<exists>m \<in> set (movies d). movie_id m = mid" by auto
  from find_Some_if_ex [OF this] obtain m where m: "Movie_findByPk d mid = Some m"
    by (auto simp: Movie_findByPk_def)
  have f: "Rating_findOne d uid mid = Some ex"
    by (rule Rating_findOne_unique [OF assms(5) assms(2) assms(3) assms(4)])
  from assms(7,8) have chk: "\<not> (js_lt (ToNumber P (JNum (Fin r))) (Fin 0) \<or>
      js_lt (Fin 10) (ToNumber P (JNum (Fin r))))" by simp
  from chk m have "rateMovie P now d uid mid (JNum (Fin r)) = rate_write P now d uid mid (JNum (Fin r))"
    by (simp add: rateMovie_def)
  with rate_write_update [OF f, of P now "JNum (Fin r)"] assms(9)
  have e: "rateMovie P now d uid mid (JNum (Fin r)) =
     (rating_submitted (ex\<lparr>rating := v\<rparr>), log_activity (Rating_update d ex v) uid mid)"
    by simp
  have rows: "ratings (snd (rateMovie P now d uid mid (JNum (Fin r)))) =
           map (\<lambda>x. if x = ex then ex\<lparr>rating := v\<rparr> else x) (ratings d)"
    using e Rating_update_rows [OF assms(6) assms(2), of v] by (simp add: ratings_log_activity)
  from e have st: "status (fst (rateMovie P now d uid mid (JNum (Fin r)))) = 200"
    "data (fst (rateMovie P now d uid mid (JNum (Fin r)))) = Some (ex\<lparr>rating := v\<rparr>)"
    by (simp_all add: rating_submitted_def)
  from rows have len: "length (ratings (snd (rateMovie P now d uid mid (JNum (Fin r))))) = length (ratings d)"
    by simp
  from st rows len rateMovie_no_insert [OF f, of P] rateMovie_inv [OF assms(5), of P]
  show ?thesis by blast
qed

theorem rateMovie_second_rating_updates_witness:
  "2 \<in> movie_id ` set (movies db0) \<and>
   ratings db0 ! 2 \<in> set (ratings db0) \<and> r_user_id (ratings db0 ! 2) = 1 \<and>
   r_movie_id (ratings db0 ! 2) = 2 \<and> rating (ratings db0 ! 2) = 15 / 2 \<and>
   one_row_per_pair db0 \<and> rating_pk db0 \<and> (0 :: rat) \<le> 4 \<and> (4 :: rat) \<le> 10 \<and>
   rating_on_update P0 (rating (ratings db0 ! 2)) (JNum (Fin 4)) = Some 4 \<and>
   status (fst (rateMovie P0 20 db0 1 2 (JNum (Fin 4)))) = 200 \<and>
   map rating (ratings (snd (rateMovie P0 20 db0 1 2 (JNum (Fin 4))))) = [9, 8, 4, 3, 3 / 2] \<and>
   length (ratings (snd (rateMovie P0 20 db0 1 2 (JNum (Fin 4))))) = length (ratings db0) \<and>
   one_row_per_pair (snd (rateMovie P0 20 db0 1 2 (JNum (Fin 4))))"
proof -
  have a: "2 \<in> movie_id ` set (movies db0)" by (simp add: db0_def)
  have b: "ratings db0 ! 2 \<in> set (ratings db0)" by (simp add: db0_def)
  have c: "r_user_id (ratings db0 ! 2) = 1" by (simp add: db0_def)
  have d: "r_movie_id (ratings db0 ! 2) = 2" by (simp add: db0_def)
  have d': "rating (ratings db0 ! 2) = 15 / 2" by (simp add: db0_def)
  have e: "one_row_per_pair db0" by (simp add: one_row_per_pair_def db0_def)
  have f: "rating_pk db0" by (simp add: rating_pk_def db0_def)
  have g: "(0 :: rat) \<le> 4" "(4 :: rat) \<le> 10" by simp_all
  have h: "rating_on_update P0 (rating (ratings db0 ! 2)) (JNum (Fin 4)) = Some 4"
    by (simp add: P0_def stored_as_given_def)
  note t = rateMovie_second_rating_updates [OF a b c d e f g h, of 20]
  have i: "map rating (ratings (snd (rateMovie P0 20 db0 1 2 (JNum (Fin 4))))) = [9, 8, 4, 3, 3 / 2]"
    by code_simp
  from t have t1: "status (fst (rateMovie P0 20 db0 1 2 (JNum (Fin 4)))) = 200"
    and t2: "length (ratings (snd (rateMovie P0 20 db0 1 2 (JNum (Fin 4))))) = length (ratings db0)"
    and t3: "one_row_per_pair (snd (rateMovie P0 20 db0 1 2 (JNum (Fin 4))))"
    by blast+
  from a b c d d' e f g h t1 i t2 t3 show ?thesis by (intro conjI)
qed

section \<open>deleteAccount and auth\<close>

lemma find_map_pk:
  assumes "\<And>x. key (f x) = key x"
  shows "find (\<lambda>x. key x = k) (map f xs) = map_option f (find (\<lambda>x. key x = k) xs)"
  using assms by (induction xs) simp_all

lemma split_space_prefix:
  assumes "CHR '' '' \<notin> set a"
  shows "split_space (a @ CHR '' '' # b) = a # split_space b"
  using assms by (induction a) (auto split: list.splits)

lemma split_space_no_space:
  assumes "CHR '' '' \<notin> set a"
  shows "split_space a = [a]"
  using assms by (induction a) (auto split: list.splits)

lemma bearer_token_of:
  assumes "CHR '' '' \<notin> set token"
  shows "bearer_token (Some (''Bearer '' @ token)) = Some token"
proof -
  have "split_space (''Bearer'' @ CHR '' '' # token) = ''Bearer'' # split_space token"
    by (rule split_space_prefix) simp
  with split_space_no_space [OF assms] have "split_space (''Bearer '' @ token) = [''Bearer'', token]"
    by simp
  then show ?thesis by (simp add: bearer_token_def)
qed

lemma auth_deactivated:
  assumes "CHR '' '' \<notin> set token" "token \<noteq> []" "jwt_verify P token = Some uid"
      and "User_findByPk d uid = Some u" "is_active u \<noteq> Some True"
  shows "auth P d (Some (''Bearer '' @ token)) = Rejected (fail_with 401 ''Account is deactivated'')"
  using assms bearer_token_of [OF assms(1)] by (simp add: auth_def)

lemma updateProfile_keeps_inactive:
  assumes "User_findByPk d uid = Some u" "is_active u \<noteq> Some True"
  shows "\<exists>u'. User_findByPk (snd (updateProfile d uid' body)) uid = Some u' \<and> is_active u' \<noteq> Some True"
proof (cases "User_findByPk d uid'")
  case None
  with assms show ?thesis by (simp add: updateProfile_def)
next
  case (Some w)
  show ?thesis
  proof (cases "User_profile_valid (or_text (u_first_name body) (first_name w))
      (or_text (u_last_name body) (last_name w)) (or_text (u_bio body) (bio w))")
    case False
    with Some assms show ?thesis by (simp add: updateProfile_def Let_def)
  next
    case True
    let ?f = "\<lambda>r. if user_id r = user_id w
       then r\<lparr>first_name := or_text (u_first_name body) (first_name w),
              last_name := or_text (u_last_name body) (last_name w),
              bio := or_text (u_bio body) (bio w)\<rparr> else r"
    have "users (snd (updateProfile d uid' body)) = map ?f (users d)"
      using Some True by (simp add: updateProfile_def Let_def)
    then have "User_findByPk (snd (updateProfile d uid' body)) uid = map_option ?f (User_findByPk d uid)"
      unfolding User_findByPk_def by (simp add: find_map_pk [of user_id ?f])
    with assms show ?thesis by simp
  qed
qed

lemma deleteAccount_users:
  assumes "User_findByPk d uid = Some u"
  shows "users (snd (deleteAccount d uid)) =
     map (\<lambda>r. if user_id r = uid then r\<lparr>is_active := Some False\<rparr> else r) (users d)"
proof -
  from assms have "user_id u = uid"
    unfolding User_findByPk_def by (auto dest: find_SomeD)
  with assms show ?thesis by (simp add: deleteAccount_def)
qed

lemma deleteAccount_keeps_inactive:
  assumes "User_findByPk d uid = Some u" "is_active u \<noteq> Some True"
  shows "\<exists>u'. User_findByPk (snd (deleteAccount d uid')) uid = Some u' \<and> is_active u' \<noteq> Some True"
proof (cases "User_findByPk d uid'")
  case None
  with assms show ?thesis by (simp add: deleteAccount_def)
next
  case (Some w)
  let ?f = "\<lambda>r. if user_id r = uid' then r\<lparr>is_active := Some False\<rparr> else r"
  have "User_findByPk (snd (deleteAccount d uid')) uid = map_option ?f (User_findByPk d uid)"
    unfolding User_findByPk_def deleteAccount_users [OF Some]
    by (simp add: find_map_pk [of user_id ?f])
  with assms show ?thesis by simp
qed

lemma users_rateMovie: "users (snd (rateMovie P now d uid mid b)) = users d"
  by (simp add: rateMovie_def rate_write_def log_activity_def Rating_update_def Rating_create_def
      Let_def split: option.splits)

lemma users_createReview: "users (snd (createReview P now d uid body)) = users d"
  by (simp add: createReview_def Let_def split: option.splits)

lemma users_updateReview: "users (snd (updateReview d uid rid body)) = users d"
  by (simp add: updateReview_def Let_def split: option.splits)

lemma handle_keeps_inactive:
  assumes "User_findByPk d uid = Some u" "is_active u \<noteq> Some True"
  shows "\<exists>u'. User_findByPk (handle P d req) uid = Some u' \<and> is_active u' \<noteq> Some True"
proof (cases req)
  case (RateMovie now uid' mid b)
  with assms show ?thesis by (simp add: User_findByPk_def users_rateMovie)
next
  case (CreateReview now uid' body)
  with assms show ?thesis by (simp add: User_findByPk_def users_createReview)
next
  case (UpdateReview uid' rid body)
  with assms show ?thesis by (simp add: User_findByPk_def users_updateReview)
next
  case (UpdateProfile uid' body)
  with updateProfile_keeps_inactive [OF assms] show ?thesis by simp
next
  case (DeleteAccount uid')
  with deleteAccount_keeps_inactive [OF assms] show ?thesis by simp
qed

lemma run_keeps_inactive:
  assumes "User_findByPk d uid = Some u" "is_active u \<noteq> Some True"
  shows "\<exists>u'. User_findByPk (run P d reqs) uid = Some u' \<and> is_active u' \<noteq> Some True"
  using assms
proof (induction reqs arbitrary: d u)
  case Nil
  then show ?case by (simp add: run_def)
next
  case (Cons req reqs)
  from handle_keeps_inactive [OF Cons.prems, of P req] obtain u1
    where "User_findByPk (handle P d req) uid = Some u1" "is_active u1 \<noteq> Some True" by blast
  from Cons.IH [OF this] show ?case by (simp add: run_def)
qed

text \<open>
  Claim C8: \<open>deleteAccount\<close> for a user with a row answers 200, removes no row and changes
  nothing but \<open>is_active\<close>, which is false in the user's row afterwards; and after any
  sequence of the requests that write, handled from that state on, \<open>auth\<close> answers a
  request with that user's token with 401 and \<open>Account is deactivated\<close>.
\<close>

theorem deleteAccount_deactivates:
  assumes "User_findByPk d uid = Some u"
      and "jwt_verify P token = Some uid" and "token \<noteq> []" and "CHR '' '' \<notin> set token"
  shows "status (fst (deleteAccount d uid)) = 200 \<and>
         users (snd (deleteAccount d uid)) =
           map (\<lambda>r. if user_id r = uid then r\<lparr>is_active := Some False\<rparr> else r) (users d) \<and>
         length (users (snd (deleteAccount d uid))) = length (users d) \<and>
         map user_id (users (snd (deleteAccount d uid))) = map user_id (users d) \<and>
         User_findByPk (snd (deleteAccount d uid)) uid = Some (u\<lparr>is_active := Some False\<rparr>) \<and>
         auth P (snd (deleteAccount d uid)) (Some (''Bearer '' @ token)) =
           Rejected (fail_with 401 ''Account is deactivated'') \<and>
         (\<forall>reqs. auth P (run P (snd (deleteAccount d uid)) reqs) (Some (''Bearer '' @ token)) =
            Rejected (fail_with 401 ''Account is deactivated''))"
proof -
  let ?f = "\<lambda>r. if user_id r = uid then r\<lparr>is_active := Some False\<rparr> else r"
  let ?d = "snd (deleteAccount d uid)"
  from assms(1) have id: "user_id u = uid"
    unfolding User_findByPk_def by (auto dest: find_SomeD)
  have st: "status (fst (deleteAccount d uid)) = 200"
    using assms(1) by (simp add: deleteAccount_def)
  note us = deleteAccount_users [OF assms(1)]
  have ids: "map user_id (users ?d) = map user_id (users d)"
    unfolding us by (simp add: comp_def if_distrib cong: if_cong)
  have "User_findByPk ?d uid = map_option ?f (User_findByPk d uid)"
    unfolding User_findByPk_def us by (simp add: find_map_pk [of user_id ?f])
  with assms(1) id have fu: "User_findByPk ?d uid = Some (u\<lparr>is_active := Some False\<rparr>)" by simp
  have ina: "is_active (u\<lparr>is_active := Some False\<rparr>) \<noteq> Some True" by simp
  have later: "\<forall>reqs. auth P (run P ?d reqs) (Some (''Bearer '' @ token)) =
            Rejected (fail_with 401 ''Account is deactivated'')"
  proof
    fix reqs
    from run_keeps_inactive [OF fu ina, of P reqs] obtain u'
      where "User_findByPk (run P ?d reqs) uid = Some u'" "is_active u' \<noteq> Some True" by blast
    from auth_deactivated [OF assms(4) assms(3) assms(2) this]
    show "auth P (run P ?d reqs) (Some (''Bearer '' @ token)) =
            Rejected (fail_with 401 ''Account is deactivated'')" .
  qed
  from later have now: "auth P ?d (Some (''Bearer '' @ token)) =
           Rejected (fail_with 401 ''Account is deactivated'')"
    using spec [OF later, of "[]"] by (simp add: run_def)
  from st us ids fu now later show ?thesis by (simp only: length_map simp_thms)
qed

theorem deleteAccount_deactivates_witness:
  "map_option username (User_findByPk db0 1) = Some ''alice'' \<and>
   jwt_verify P0 ''token-1'' = Some 1 \<and> ''token-1'' \<noteq> [] \<and> CHR '' '' \<notin> set ''token-1'' \<and>
   (case auth P0 db0 (Some ''Bearer token-1'') of Next u \<Rightarrow> username u | Rejected _ \<Rightarrow> []) = ''alice'' \<and>
   status (fst (deleteAccount db0 1)) = 200 \<and>
   map (\<lambda>u. (user_id u, is_active u)) (users (snd (deleteAccount db0 1))) =
     [(1, Some False), (2, Some True), (3, Some True)] \<and>
   auth P0 (snd (deleteAccount db0 1)) (Some ''Bearer token-1'') =
     Rejected (fail_with 401 ''Account is deactivated'') \<and>
   auth P0 (run P0 (snd (deleteAccount db0 1))
              [UpdateProfile 1 profile_update0, RateMovie 21 1 3 (JNum (Fin 6))])
     (Some ''Bearer token-1'') = Rejected (fail_with 401 ''Account is deactivated'')"
proof -
  obtain u where u: "User_findByPk db0 1 = Some u" and n: "username u = ''alice''"
    by (simp add: User_findByPk_def db0_def)
  have a: "jwt_verify P0 ''token-1'' = Some 1" by (simp add: P0_def)
  have b: "''token-1'' \<noteq> []" by simp
  have c: "CHR '' '' \<notin> set ''token-1''" by simp
  have d: "(case auth P0 db0 (Some ''Bearer token-1'') of Next u \<Rightarrow> username u | Rejected _ \<Rightarrow> []) = ''alice''"
    by code_simp
  have e: "map (\<lambda>u. (user_id u, is_active u)) (users (snd (deleteAccount db0 1))) =
     [(1, Some False), (2, Some True), (3, Some True)]" by code_simp
  note t = deleteAccount_deactivates [OF u a b c]
  from t have t1: "status (fst (deleteAccount db0 1)) = 200" by (elim conjE)
  from t have t2: "auth P0 (snd (deleteAccount db0 1)) (Some ''Bearer token-1'') =
     Rejected (fail_with 401 ''Account is deactivated'')" by simp
  from t have t3: "auth P0 (run P0 (snd (deleteAccount db0 1))
              [UpdateProfile 1 profile_update0, RateMovie 21 1 3 (JNum (Fin 6))])
     (Some ''Bearer token-1'') = Rejected (fail_with 401 ''Account is deactivated'')" by simp
  from u n a b c d e t1 t2 t3 show ?thesis by simp
qed

section \<open>updateReview and updateProfile: which fields overwrite\<close>

lemma filter_map_other:
  assumes "\<And>x. key x \<noteq> k \<Longrightarrow> f x = x" "\<And>x. key (f x) = key x"
  shows "filter (\<lambda>x. key x \<noteq> k) (map f xs) = filter (\<lambda>x. key x \<noteq> k) xs"
  using assms by (induction xs) simp_all

lemma or_text_overwrites: "text_overwrites f old (or_text f old)"
  by (cases f) simp_all

lemma or_content_overwrites: "text_overwrites f (Some old) (Some (or_content f old))"
  by (cases f) simp_all

lemma defined_or_overwrites: "flag_overwrites f old (defined_or f old)"
  by (cases f) simp_all

lemma updateReview_ok:
  assumes "Review_findByPk d rid = Some old" "status (fst (updateReview d uid rid body)) = 200"
  shows "reviews (snd (updateReview d uid rid body)) =
     map (\<lambda>r. if review_id r = rid
               then r\<lparr>rv_title := or_text (u_title body) (rv_title old),
                      content := or_content (u_content body) (content old),
                      is_spoiler := defined_or (u_is_spoiler body) (is_spoiler old)\<rparr>
               else r) (reviews d)"
proof -
  from assms(1) have id: "review_id old = rid"
    unfolding Review_findByPk_def by (auto dest: find_SomeD)
  from assms id show ?thesis
    by (simp add: updateReview_def Let_def fail_with_def server_error_def split: if_splits)
qed

lemma updateProfile_ok:
  assumes "User_findByPk d uid = Some old" "status (fst (updateProfile d uid body)) = 200"
  shows "users (snd (updateProfile d uid body)) =
     map (\<lambda>r. if user_id r = uid
               then r\<lparr>first_name := or_text (u_first_name body) (first_name old),
                      last_name := or_text (u_last_name body) (last_name old),
                      bio := or_text (u_bio body) (bio old)\<rparr>
               else r) (users d)"
proof -
  from assms(1) have id: "user_id old = uid"
    unfolding User_findByPk_def by (auto dest: find_SomeD)
  from assms id show ?thesis
    by (simp add: updateProfile_def Let_def fail_with_def split: if_splits)
qed

text \<open>
  Claim C9, as stated, lets every supplied field overwrite. A text field supplied as the
  empty string does not: the stored \<open>bio\<close> and the stored review title stay, in updates
  that answer 200, although the validation of the two models accepts the empty string
  for both columns.
\<close>

theorem empty_text_does_not_overwrite:
  "u_bio profile_update0 = Given [] \<and>
   map_option bio (User_findByPk db0 1) = Some (Some ''Old films'') \<and>
   status (fst (updateProfile db0 1 profile_update0)) = 200 \<and>
   map_option bio (User_findByPk (snd (updateProfile db0 1 profile_update0)) 1) =
     Some (Some ''Old films'') \<and>
   User_profile_valid (Some ''Alice'') (Some ''Liddell'') (Some []) \<and>
   u_title review_update0 = Given [] \<and>
   map_option rv_title (Review_findByPk db0 1) = Some (Some ''Tense'') \<and>
   status (fst (updateReview db0 1 1 review_update0)) = 200 \<and>
   map_option rv_title (Review_findByPk (snd (updateReview db0 1 1 review_update0)) 1) =
     Some (Some ''Tense'') \<and>
   Review_valid (Some []) ''Better each time''"
  by code_simp

text \<open>
  Claim C9, amended: in an update that answers 200, a text field supplied with a
  non-empty string overwrites the stored value, the flag \<open>is_spoiler\<close> overwrites whenever
  it is supplied, and every column whose field is absent (or, for a text field, \<open>null\<close> or
  the empty string) keeps its value; the other columns of the row and all other rows are
  as before.
\<close>

theorem updates_overwrite_supplied_nonempty_fields:
  "(\<forall>old. Review_findByPk d rid = Some old \<and> status (fst (updateReview d uid rid body)) = 200 \<longrightarrow>
      (\<exists>new. Review_findByPk (snd (updateReview d uid rid body)) rid = Some new \<and>
         text_overwrites (u_title body) (rv_title old) (rv_title new) \<and>
         text_overwrites (u_content body) (Some (content old)) (Some (content new)) \<and>
         flag_overwrites (u_is_spoiler body) (is_spoiler old) (is_spoiler new) \<and>
         new = old\<lparr>rv_title := rv_title new, content := content new, is_spoiler := is_spoiler new\<rparr> \<and>
         filter (\<lambda>x. review_id x \<noteq> rid) (reviews (snd (updateReview d uid rid body))) =
           filter (\<lambda>x. review_id x \<noteq> rid) (reviews d) \<and>
         length (reviews (snd (updateReview d uid rid body))) = length (reviews d))) \<and>
   (\<forall>oldu. User_findByPk d uid = Some oldu \<and> status (fst (updateProfile d uid pbody)) = 200 \<longrightarrow>
      (\<exists>newu. User_findByPk (snd (updateProfile d uid pbody)) uid = Some newu \<and>
         text_overwrites (u_first_name pbody) (first_name oldu) (first_name newu) \<and>
         text_overwrites (u_last_name pbody) (last_name oldu) (last_name newu) \<and>
         text_overwrites (u_bio pbody) (bio oldu) (bio newu) \<and>
         newu = oldu\<lparr>first_name := first_name newu, last_name := last_name newu, bio := bio newu\<rparr> \<and>
         filter (\<lambda>x. user_id x \<noteq> uid) (users (snd (updateProfile d uid pbody))) =
           filter (\<lambda>x. user_id x \<noteq> uid) (users d) \<and>
         length (users (snd (updateProfile d uid pbody))) = length (users d)))"
proof (intro conjI allI impI)
  fix old
  assume a: "Review_findByPk d rid = Some old \<and> status (fst (updateReview d uid rid body)) = 200"
  let ?f = "\<lambda>r. if review_id r = rid
               then r\<lparr>rv_title := or_text (u_title body) (rv_title old),
                      content := or_content (u_content body) (content old),
                      is_spoiler := defined_or (u_is_spoiler body) (is_spoiler old)\<rparr>
               else r"
  let ?d = "snd (updateReview d uid rid body)"
  from a have rows: "reviews ?d = map ?f (reviews d)" by (simp add: updateReview_ok)
  from a have id: "review_id old = rid"
    unfolding Review_findByPk_def by (auto dest: find_SomeD)
  have "Review_findByPk ?d rid = map_option ?f (Review_findByPk d rid)"
    unfolding Review_findByPk_def rows by (simp add: find_map_pk [of review_id ?f])
  with a id have new: "Review_findByPk ?d rid = Some (?f old)" by simp
  have oth: "filter (\<lambda>x. review_id x \<noteq> rid) (reviews ?d) = filter (\<lambda>x. review_id x \<noteq> rid) (reviews d)"
    unfolding rows by (rule filter_map_other) simp_all
  from new id oth rows
    or_text_overwrites [of "u_title body" "rv_title old"]
    or_content_overwrites [of "u_content body" "content old"]
    defined_or_overwrites [of "u_is_spoiler body" "is_spoiler old"]
  show "\<exists>new. Review_findByPk ?d rid = Some new \<and>
         text_overwrites (u_title body) (rv_title old) (rv_title new) \<and>
         text_overwrites (u_content body) (Some (content old)) (Some (content new)) \<and>
         flag_overwrites (u_is_spoiler body) (is_spoiler old) (is_spoiler new) \<and>
         new = old\<lparr>rv_title := rv_title new, content := content new, is_spoiler := is_spoiler new\<rparr> \<and>
         filter (\<lambda>x. review_id x \<noteq> rid) (reviews ?d) = filter (\<lambda>x. review_id x \<noteq> rid) (reviews d) \<and>
         length (reviews ?d) = length (reviews d)"
    by (intro exI [of _ "?f old"]) simp
next
  fix oldu
  assume a: "User_findByPk d uid = Some oldu \<and> status (fst (updateProfile d uid pbody)) = 200"
  let ?f = "\<lambda>r. if user_id r = uid
               then r\<lparr>first_name := or_text (u_first_name pbody) (first_name oldu),
                      last_name := or_text (u_last_name pbody) (last_name oldu),
                      bio := or_text (u_bio pbody) (bio oldu)\<rparr>
               else r"
  let ?d = "snd (updateProfile d uid pbody)"
  from a have rows: "users ?d = map ?f (users d)" by (simp add: updateProfile_ok)
  from a have id: "user_id oldu = uid"
    unfolding User_findByPk_def by (auto dest: find_SomeD)
  have "User_findByPk ?d uid = map_option ?f (User_findByPk d uid)"
    unfolding User_findByPk_def rows by (simp add: find_map_pk [of user_id ?f])
  with a id have new: "User_findByPk ?d uid = Some (?f oldu)" by simp
  have oth: "filter (\<lambda>x. user_id x \<noteq> uid) (users ?d) = filter (\<lambda>x. user_id x \<noteq> uid) (users d)"
    unfolding rows by (rule filter_map_other) simp_all
  from new id oth rows
    or_text_overwrites [of "u_first_name pbody" "first_name oldu"]
    or_text_overwrites [of "u_last_name pbody" "last_name oldu"]
    or_text_overwrites [of "u_bio pbody" "bio oldu"]
  show "\<exists>newu. User_findByPk ?d uid = Some newu \<and>
         text_overwrites (u_first_name pbody) (first_name oldu) (first_name newu) \<and>
         text_overwrites (u_last_name pbody) (last_name oldu) (last_name newu) \<and>
         text_overwrites (u_bio pbody) (bio oldu) (bio newu) \<and>
         newu = oldu\<lparr>first_name := first_name newu, last_name := last_name newu, bio := bio newu\<rparr> \<and>
         filter (\<lambda>x. user_id x \<noteq> uid) (users ?d) = filter (\<lambda>x. user_id x \<noteq> uid) (users d) \<and>
         length (users ?d) = length (users d)"
    by (intro exI [of _ "?f oldu"]) simp
qed

theorem updates_overwrite_supplied_nonempty_fields_witness:
  "map_option (\<lambda>r. (rv_title r, content r, is_spoiler r)) (Review_findByPk db0 1) =
     Some (Some ''Tense'', ''Still works'', Some False) \<and>
   status (fst (updateReview db0 1 1 review_update0)) = 200 \<and>
   map_option (\<lambda>r. (rv_title r, content r, is_spoiler r))
     (Review_findByPk (snd (updateReview db0 1 1 review_update0)) 1) =
     Some (Some ''Tense'', ''Better each time'', None) \<and>
   map_option (\<lambda>u. (first_name u, last_name u, bio u)) (User_findByPk db0 1) =
     Some (Some ''Alice'', None, Some ''Old films'') \<and>
   status (fst (updateProfile db0 1 profile_update0)) = 200 \<and>
   map_option (\<lambda>u. (first_name u, last_name u, bio u))
     (User_findByPk (snd (updateProfile db0 1 profile_update0)) 1) =
     Some (Some ''Alice'', Some ''Liddell'', Some ''Old films'') \<and>
   (\<exists>old new. Review_findByPk db0 1 = Some old \<and>
      Review_findByPk (snd (updateReview db0 1 1 review_update0)) 1 = Some new \<and>
      text_overwrites (u_title review_update0) (rv_title old) (rv_title new) \<and>
      text_overwrites (u_content review_update0) (Some (content old)) (Some (content new)) \<and>
      flag_overwrites (u_is_spoiler review_update0) (is_spoiler old) (is_spoiler new)) \<and>
   (\<exists>oldu newu. User_findByPk db0 1 = Some oldu \<and>
      User_findByPk (snd (updateProfile db0 1 profile_update0)) 1 = Some newu \<and>
      text_overwrites (u_first_name profile_update0) (first_name oldu) (first_name newu) \<and>
      text_overwrites (u_last_name profile_update0) (last_name oldu) (last_name newu) \<and>
      text_overwrites (u_bio profile_update0) (bio oldu) (bio newu))"
proof -
  have a: "map_option (\<lambda>r. (rv_title r, content r, is_spoiler r)) (Review_findByPk db0 1) =
     Some (Some ''Tense'', ''Still works'', Some False)" by code_simp
  have b: "status (fst (updateReview db0 1 1 review_update0)) = 200" by code_simp
  have c: "map_option (\<lambda>r. (rv_title r, content r, is_spoiler r))
     (Review_findByPk (snd (updateReview db0 1 1 review_update0)) 1) =
     Some (Some ''Tense'', ''Better each time'', None)" by code_simp
  have d: "map_option (\<lambda>u. (first_name u, last_name u, bio u)) (User_findByPk db0 1) =
     Some (Some ''Alice'', None, Some ''Old films'')" by code_simp
  have e: "status (fst (updateProfile db0 1 profile_update0)) = 200" by code_simp
  have f: "map_option (\<lambda>u. (first_name u, last_name u, bio u))
     (User_findByPk (snd (updateProfile db0 1 profile_update0)) 1) =
     Some (Some ''Alice'', Some ''Liddell'', Some ''Old films'')" by code_simp
  from a obtain old where old: "Review_findByPk db0 1 = Some old" by auto
  from d obtain oldu where oldu: "User_findByPk db0 1 = Some oldu" by auto
  note t = updates_overwrite_supplied_nonempty_fields [of db0 1 1 review_update0 profile_update0]
  from t old b have g: "\<exists>old new. Review_findByPk db0 1 = Some old \<and>
      Review_findByPk (snd (updateReview db0 1 1 review_update0)) 1 = Some new \<and>
      text_overwrites (u_title review_update0) (rv_title old) (rv_title new) \<and>
      text_overwrites (u_content review_update0) (Some (content old)) (Some (content new)) \<and>
      flag_overwrites (u_is_spoiler review_update0) (is_spoiler old) (is_spoiler new)"
    by blast
  from t oldu e have h: "\<exists>oldu newu. User_findByPk db0 1 = Some oldu \<and>
      User_findByPk (snd (updateProfile db0 1 profile_update0)) 1 = Some newu \<and>
      text_overwrites (u_first_name profile_update0) (first_name oldu) (first_name newu) \<and>
      text_overwrites (u_last_name profile_update0) (last_name oldu) (last_name newu) \<and>
      text_overwrites (u_bio profile_update0) (bio oldu) (bio newu)"
    by blast
  from a b c d e f g h show ?thesis by (intro conjI)
qed

end
